theory Spec2Isabelle
  imports Main
begin

section \<open>The virtual machine data source of the vSphere plugin\<close>

text \<open>
  The data source (package \<open>virtualmachine\<close>) asks vCenter for the virtual machines
  whose name matches a glob, narrows the list by a chain of optional filters and returns
  the name of the single machine that is left. The functions embedded here are
  \<open>Configure\<close> and \<open>Execute\<close> of \<open>datasource/virtualmachine/data.go\<close> and the five
  filters \<open>filterByNameRegex\<close>, \<open>filterByTemplate\<close>, \<open>filterByHost\<close>,
  \<open>filterByTags\<close> and \<open>filterByLatest\<close> of the filter file of the same package.
\<close>

subsection \<open>Errors and panics\<close>

text \<open>
  A Go \<open>error\<close> value is built by \<open>errors.New(msg)\<close> (its message is \<open>msg\<close>), by
  \<open>fmt.Errorf("prefix: %w", err)\<close> (the message is the prefix, a colon, a blank and the
  message of the wrapped error) or, in \<open>Configure\<close>, is a \<open>*packersdk.MultiError\<close>
  holding a list of errors.
\<close>

datatype error =
    ErrorNew string
  | Errorf string error
  | MultiError "error list"

text \<open>
  A call that does not produce its result either returns an error or panics: the
  runtime's nil pointer dereference, or an index out of range.
\<close>

datatype failure = Error error | NilPointerDereference | IndexOutOfRange

text \<open>\<open>return nil, fmt.Errorf("prefix: %w", err)\<close> around a call; a panic is not caught.\<close>

definition wrapError :: "string \<Rightarrow> failure + 'a \<Rightarrow> failure + 'a" where
  "wrapError prefix r =
     (case r of
        Inl (Error err) \<Rightarrow> Inl (Error (Errorf prefix err))
      | Inl NilPointerDereference \<Rightarrow> Inl NilPointerDereference
      | Inl IndexOutOfRange \<Rightarrow> Inl IndexOutOfRange
      | Inr x \<Rightarrow> Inr x)"

subsection \<open>Configuration\<close>

record Tag =
  tag_Name :: string
  tag_Category :: string

record ConnectConfig =
  VCenterServer :: string
  Username :: string
  Password :: string
  InsecureConnection :: bool
  Datacenter :: string

text \<open>
  \<open>Config\<close> embeds \<open>ConnectConfig\<close>; the embedded \<open>common.PackerConfig\<close> of
  the SDK, which neither \<open>Configure\<close> nor \<open>Execute\<close> reads, is left out.
  \<open>Tags\<close> is a Go slice: \<open>None\<close> is the nil
  slice, \<open>Some ts\<close> a non-nil one (\<open>Some []\<close> is non-nil and empty); \<open>Execute\<close> tells
  the two apart with \<open>d.config.Tags != nil\<close>.
\<close>

record Config = ConnectConfig +
  Name :: string
  NameRegex :: string
  Template :: bool
  Host :: string
  Tags :: "Tag list option"
  Latest :: bool

text \<open>The elements of a slice; \<open>len\<close> and \<open>range\<close> see a nil slice as empty.\<close>

definition elems :: "'a list option \<Rightarrow> 'a list" where
  "elems s = (case s of None \<Rightarrow> [] | Some xs \<Rightarrow> xs)"

record DatasourceOutput =
  VmName :: string

subsection \<open>What vCenter answers\<close>

text \<open>
  A creation date is a \<open>time.Time\<close>, counted here in nanoseconds from Go's zero instant
  (January 1 of year 1, 00:00:00 UTC), the value of \<open>var latestTimestamp time.Time\<close>.
  vCenter reports creation dates of the common era, so instants before the zero instant
  are not modelled. \<open>t.After(u)\<close> is \<open>u < t\<close>.
\<close>

type_synonym Time = nat

definition After :: "Time \<Rightarrow> Time \<Rightarrow> bool" where
  "After t u = (u < t)"

text \<open>
  \<open>*object.VirtualMachine\<close>: a handle with the managed object reference and the name
  taken from the inventory path. The handles that the finder returns are never nil; a
  possibly nil handle is a \<open>VirtualMachine option\<close>.
\<close>

record VirtualMachine =
  vm_Reference :: string
  vm_Name :: string

text \<open>
  \<open>mo.VirtualMachine\<close>, the property structure that the collector fills: \<open>Name\<close> when
  \<open>"name"\<close> is asked for, \<open>Config\<close> when \<open>"config"\<close> is. \<open>Config\<close> and
  \<open>Config.CreateDate\<close> are pointers: \<open>None\<close> is nil.
\<close>

record VirtualMachineConfigInfo =
  CreateDate :: "Time option"

record mo_VirtualMachine =
  mo_Name :: string
  mo_Config :: "VirtualMachineConfigInfo option"

text \<open>\<open>tags.Tag\<close> and \<open>tags.Category\<close> of the tagging API.\<close>

record tags_Tag =
  at_Name :: string
  at_CategoryID :: string

record tags_Category =
  cat_ID :: string
  cat_Name :: string

text \<open>
  The remote calls that the filters make through \<open>*driver.VCenterDriver\<close> (its finder,
  its property collector and its tag manager), each a function from the arguments of the
  call to the answer of vCenter or the error of the call:
  \<^item> \<open>Finder_VirtualMachineList\<close>: \<open>dr.Finder.VirtualMachineList(ctx, pattern)\<close>;
  \<^item> \<open>IsTemplate\<close>: \<open>vm.IsTemplate(ctx)\<close>;
  \<^item> \<open>Finder_HostSystem\<close>: \<open>driver.Finder.HostSystem(ctx, name)\<close>, the reference of the host;
  \<^item> \<open>RetrieveOne_vm\<close>: \<open>pc.RetrieveOne(ctx, ref, {"vm"}, &host)\<close>, the field \<open>host.Vm\<close>;
  \<^item> \<open>Retrieve_name\<close>: \<open>pc.Retrieve(ctx, refs, {"name"}, &hostVms)\<close>;
  \<^item> \<open>GetAttachedTags\<close>: \<open>tagMan.GetAttachedTags(ctx, ref)\<close>;
  \<^item> \<open>GetCategory\<close>: \<open>tagMan.GetCategory(ctx, id)\<close>;
  \<^item> \<open>Properties_config\<close>: \<open>vm.Properties(ctx, vm.Reference(), {"config"}, &vmConfig)\<close>.
\<close>

record VCenterDriver =
  Finder_VirtualMachineList :: "string \<Rightarrow> error + VirtualMachine list"
  IsTemplate :: "VirtualMachine \<Rightarrow> error + bool"
  Finder_HostSystem :: "string \<Rightarrow> error + string"
  RetrieveOne_vm :: "string \<Rightarrow> error + string list"
  Retrieve_name :: "string list \<Rightarrow> error + mo_VirtualMachine list"
  GetAttachedTags :: "string \<Rightarrow> error + tags_Tag list"
  GetCategory :: "string \<Rightarrow> error + tags_Category"
  Properties_config :: "VirtualMachine \<Rightarrow> error + mo_VirtualMachine"

text \<open>
  A compiled \<open>*regexp.Regexp\<close> is modelled by what \<open>MatchString\<close> answers.
  \<open>regexp.Compile\<close> and \<open>driver.NewDriver\<close> are parameters of the model.
\<close>

type_synonym Regexp = "string \<Rightarrow> bool"

record Collaborators =
  regexp_Compile :: "string \<Rightarrow> error + Regexp"
  NewDriver :: "ConnectConfig \<Rightarrow> error + VCenterDriver"

subsection \<open>The filters\<close>

text \<open>
  \<open>filterByNameRegex\<close>. \<open>re, _ := regexp.Compile(nameRegex)\<close> drops the error: after
  a failed compilation \<open>re\<close> is nil, and \<open>re.MatchString\<close> on nil dereferences it. The
  loop carries \<open>result\<close>.
\<close>

fun filterByNameRegex_loop ::
  "Regexp option \<Rightarrow> VirtualMachine list \<Rightarrow> VirtualMachine list \<Rightarrow> failure + VirtualMachine list"
where
  "filterByNameRegex_loop re result [] = Inr result"
| "filterByNameRegex_loop re result (i # vmList) =
     (case re of
        None \<Rightarrow> Inl NilPointerDereference
      | Some r \<Rightarrow>
          filterByNameRegex_loop re (if r (vm_Name i) then result @ [i] else result) vmList)"

definition filterByNameRegex ::
  "(string \<Rightarrow> error + Regexp) \<Rightarrow> VirtualMachine list \<Rightarrow> string \<Rightarrow> failure + VirtualMachine list"
where
  "filterByNameRegex compile vmList nameRegex =
     (let re = (case compile nameRegex of Inl _ \<Rightarrow> None | Inr r \<Rightarrow> Some r)
      in filterByNameRegex_loop re [] vmList)"

text \<open>\<open>filterByTemplate\<close>: one \<open>IsTemplate\<close> call for each machine.\<close>

fun filterByTemplate_loop ::
  "VCenterDriver \<Rightarrow> VirtualMachine list \<Rightarrow> VirtualMachine list \<Rightarrow> failure + VirtualMachine list"
where
  "filterByTemplate_loop driver result [] = Inr result"
| "filterByTemplate_loop driver result (i # vmList) =
     (case IsTemplate driver i of
        Inl err \<Rightarrow>
          Inl (Error (Errorf ''error checking if virtual machine is a template'' err))
      | Inr isTemplate \<Rightarrow>
          filterByTemplate_loop driver (if isTemplate then result @ [i] else result) vmList)"

definition filterByTemplate ::
  "VCenterDriver \<Rightarrow> VirtualMachine list \<Rightarrow> failure + VirtualMachine list"
where
  "filterByTemplate driver vmList = filterByTemplate_loop driver [] vmList"

text \<open>
  \<open>filterByHost\<close>: the machines of the host are fetched once; then every machine of the
  list is appended once for each machine of the host that bears its name (the inner loop
  has no \<open>break\<close>).
\<close>

fun filterByHost_inner ::
  "VirtualMachine \<Rightarrow> VirtualMachine list \<Rightarrow> mo_VirtualMachine list \<Rightarrow> VirtualMachine list"
where
  "filterByHost_inner filteredVm result [] = result"
| "filterByHost_inner filteredVm result (hostVm # hostVms) =
     filterByHost_inner filteredVm
       (if vm_Name filteredVm = mo_Name hostVm then result @ [filteredVm] else result) hostVms"

fun filterByHost_loop ::
  "mo_VirtualMachine list \<Rightarrow> VirtualMachine list \<Rightarrow> VirtualMachine list \<Rightarrow> VirtualMachine list"
where
  "filterByHost_loop hostVms result [] = result"
| "filterByHost_loop hostVms result (filteredVm # vmList) =
     filterByHost_loop hostVms (filterByHost_inner filteredVm result hostVms) vmList"

definition filterByHost ::
  "VCenterDriver \<Rightarrow> 'a Config_scheme \<Rightarrow> VirtualMachine list \<Rightarrow> failure + VirtualMachine list"
where
  "filterByHost driver config vmList =
     (case Finder_HostSystem driver (Host config) of
        Inl err \<Rightarrow> Inl (Error (Errorf ''error finding defined host system'' err))
      | Inr obj \<Rightarrow>
     (case RetrieveOne_vm driver obj of
        Inl err \<Rightarrow> Inl (Error (Errorf ''error retrieving properties of host system'' err))
      | Inr host_Vm \<Rightarrow>
     (case Retrieve_name driver host_Vm of
        Inl err \<Rightarrow>
          Inl (Error (Errorf ''failed to get properties for the virtual machine'' err))
      | Inr hostVms \<Rightarrow> Inr (filterByHost_loop hostVms [] vmList))))"

text \<open>
  \<open>filterByTags\<close>, from the inside out: the scan of the attached tags for one configured
  tag (the value of \<open>configTagMatched\<close> after the innermost loop), the loop over the
  configured tags (the value of \<open>matchedTagsCount\<close>, left at the first configured tag
  that did not match), and the loop over the machines.
\<close>

fun filterByTags_scan :: "VCenterDriver \<Rightarrow> Tag \<Rightarrow> tags_Tag list \<Rightarrow> failure + bool" where
  "filterByTags_scan driver configTag [] = Inr False"
| "filterByTags_scan driver configTag (realTag # realTagsList) =
     (if tag_Name configTag = at_Name realTag then
        (case GetCategory driver (at_CategoryID realTag) of
           Inl err \<Rightarrow> Inl (Error (Errorf ''failed to return tag category for tag'' err))
         | Inr category \<Rightarrow>
             if tag_Category configTag = cat_Name category then Inr True
             else filterByTags_scan driver configTag realTagsList)
      else filterByTags_scan driver configTag realTagsList)"

fun filterByTags_count ::
  "VCenterDriver \<Rightarrow> tags_Tag list \<Rightarrow> nat \<Rightarrow> Tag list \<Rightarrow> failure + nat"
where
  "filterByTags_count driver realTagsList matchedTagsCount [] = Inr matchedTagsCount"
| "filterByTags_count driver realTagsList matchedTagsCount (configTag # vmTags) =
     (case filterByTags_scan driver configTag realTagsList of
        Inl e \<Rightarrow> Inl e
      | Inr configTagMatched \<Rightarrow>
          if configTagMatched
          then filterByTags_count driver realTagsList (matchedTagsCount + 1) vmTags
          else Inr matchedTagsCount)"

fun filterByTags_loop ::
  "VCenterDriver \<Rightarrow> Tag list \<Rightarrow> VirtualMachine list \<Rightarrow> VirtualMachine list
    \<Rightarrow> failure + VirtualMachine list"
where
  "filterByTags_loop driver vmTags result [] = Inr result"
| "filterByTags_loop driver vmTags result (filteredVm # vmList) =
     (case GetAttachedTags driver (vm_Reference filteredVm) of
        Inl err \<Rightarrow> Inl (Error (Errorf ''failed return tags for the virtual machine'' err))
      | Inr realTagsList \<Rightarrow>
     (case filterByTags_count driver realTagsList 0 vmTags of
        Inl e \<Rightarrow> Inl e
      | Inr matchedTagsCount \<Rightarrow>
          filterByTags_loop driver vmTags
            (if matchedTagsCount = length vmTags then result @ [filteredVm] else result)
            vmList))"

definition filterByTags ::
  "VCenterDriver \<Rightarrow> Tag list \<Rightarrow> VirtualMachine list \<Rightarrow> failure + VirtualMachine list"
where
  "filterByTags driver vmTags vmList = filterByTags_loop driver vmTags [] vmList"

text \<open>
  \<open>filterByLatest\<close>. The loop carries \<open>latestVM\<close> (nil at first) and
  \<open>latestTimestamp\<close> (the zero instant at first). \<open>vmConfig.Config.CreateDate.After\<close>
  dereferences both pointers. The result is the one-element slice \<open>{latestVM}\<close>,
  whatever \<open>latestVM\<close> is.
\<close>

fun filterByLatest_loop ::
  "VCenterDriver \<Rightarrow> VirtualMachine option \<Rightarrow> Time \<Rightarrow> VirtualMachine list
    \<Rightarrow> failure + VirtualMachine option"
where
  "filterByLatest_loop driver latestVM latestTimestamp [] = Inr latestVM"
| "filterByLatest_loop driver latestVM latestTimestamp (elementVM # vmList) =
     (case Properties_config driver elementVM of
        Inl err \<Rightarrow>
          Inl (Error
            (Errorf ''error retrieving config properties for the virtual machine'' err))
      | Inr vmConfig \<Rightarrow>
     (case mo_Config vmConfig of
        None \<Rightarrow> Inl NilPointerDereference
      | Some config \<Rightarrow>
     (case CreateDate config of
        None \<Rightarrow> Inl NilPointerDereference
      | Some createDate \<Rightarrow>
          if After createDate latestTimestamp
          then filterByLatest_loop driver (Some elementVM) createDate vmList
          else filterByLatest_loop driver latestVM latestTimestamp vmList)))"

definition filterByLatest ::
  "VCenterDriver \<Rightarrow> VirtualMachine list \<Rightarrow> failure + VirtualMachine option list"
where
  "filterByLatest driver vmList =
     (case filterByLatest_loop driver None 0 vmList of
        Inl e \<Rightarrow> Inl e
      | Inr latestVM \<Rightarrow> Inr [latestVM])"

subsection \<open>Configure\<close>

record Datasource =
  config :: Config

text \<open>
  Modelled from the spec: \<open>packersdk.MultiErrorAppend\<close> belongs to the plugin SDK and is
  not among the sources; the spec says that the configuration errors "are aggregated and
  reported together". \<open>errs\<close> is a \<open>*packersdk.MultiError\<close>: \<open>None\<close> is nil,
  \<open>Some es\<close> one whose field \<open>Errors\<close> is \<open>es\<close>.
\<close>

definition MultiErrorAppend :: "error list option \<Rightarrow> error \<Rightarrow> error list option" where
  "MultiErrorAppend errs e = (case errs of None \<Rightarrow> Some [e] | Some es \<Rightarrow> Some (es @ [e]))"

fun Configure_tags :: "error list option \<Rightarrow> Tag list \<Rightarrow> error list option" where
  "Configure_tags errs [] = errs"
| "Configure_tags errs (tag # tags) =
     Configure_tags
       (if tag_Name tag = [] \<or> tag_Category tag = []
        then MultiErrorAppend errs (ErrorNew ''both name and category are required for tag'')
        else errs)
       tags"

text \<open>
  \<open>Configure\<close>. \<open>decode\<close> is \<open>config.Decode\<close> of the SDK, from the raw configuration to
  the decoded \<open>Config\<close> or the decoding error. The result is the data source after the
  call and the returned error (\<open>None\<close> is nil). After a decoding error the data source is
  left as it was.
\<close>

definition Configure ::
  "('raw \<Rightarrow> error + Config) \<Rightarrow> 'raw \<Rightarrow> Datasource \<Rightarrow> Datasource \<times> error option"
where
  "Configure decode raws d =
     (case decode raws of
        Inl err \<Rightarrow> (d, Some err)
      | Inr decoded \<Rightarrow>
          (let c = (if Name decoded = [] then decoded\<lparr>Name := ''*''\<rparr> else decoded);
               errs = None;
               errs = (if VCenterServer c = []
                       then MultiErrorAppend errs (ErrorNew '''vcenter_server' is required'')
                       else errs);
               errs = (if Username c = []
                       then MultiErrorAppend errs (ErrorNew '''username' is required'')
                       else errs);
               errs = (if Password c = []
                       then MultiErrorAppend errs (ErrorNew '''password' is required'')
                       else errs);
               errs = (if length (elems (Tags c)) > 0
                       then Configure_tags errs (elems (Tags c))
                       else errs)
           in (d\<lparr>config := c\<rparr>,
               (case errs of
                  None \<Rightarrow> None
                | Some es \<Rightarrow> if length es > 0 then Some (MultiError es) else None))))"

subsection \<open>Execute\<close>

text \<open>
  To state which filter runs on which list, the model of \<open>Execute\<close> returns, beside the
  result, the calls of the filters it made, in order, each with the list it was given.
\<close>

datatype stage = NameRegexStage | TemplateStage | HostStage | TagsStage | LatestStage

type_synonym 'a run = "(stage \<times> VirtualMachine list) list \<times> (failure + 'a)"

text \<open>Sequencing: a failure ends the run; otherwise the calls of the next part follow.\<close>

definition thenRun :: "'a run \<Rightarrow> ('a \<Rightarrow> 'b run) \<Rightarrow> 'b run" where
  "thenRun m f =
     (case m of
        (calls, Inl e) \<Rightarrow> (calls, Inl e)
      | (calls, Inr x) \<Rightarrow> (case f x of (calls', r) \<Rightarrow> (calls @ calls', r)))"

text \<open>\<open>if d.config.NameRegex != "" { filteredVms = filterByNameRegex(...) }\<close>\<close>

definition step_NameRegex ::
  "Collaborators \<Rightarrow> Config \<Rightarrow> VirtualMachine list \<Rightarrow> VirtualMachine list run"
where
  "step_NameRegex env c filteredVms =
     (if NameRegex c \<noteq> []
      then ([(NameRegexStage, filteredVms)],
            filterByNameRegex (regexp_Compile env) filteredVms (NameRegex c))
      else ([], Inr filteredVms))"

text \<open>\<open>if len(filteredVms) > 0 && d.config.Template { ... }\<close>\<close>

definition step_Template ::
  "VCenterDriver \<Rightarrow> Config \<Rightarrow> VirtualMachine list \<Rightarrow> VirtualMachine list run"
where
  "step_Template dr c filteredVms =
     (if length filteredVms > 0 \<and> Template c
      then ([(TemplateStage, filteredVms)],
            wrapError ''failed to filter by template attribute''
              (filterByTemplate dr filteredVms))
      else ([], Inr filteredVms))"

text \<open>\<open>if len(filteredVms) > 0 && d.config.Host != "" { ... }\<close>\<close>

definition step_Host ::
  "VCenterDriver \<Rightarrow> Config \<Rightarrow> VirtualMachine list \<Rightarrow> VirtualMachine list run"
where
  "step_Host dr c filteredVms =
     (if length filteredVms > 0 \<and> Host c \<noteq> []
      then ([(HostStage, filteredVms)],
            wrapError ''failed to filter by host attribute'' (filterByHost dr c filteredVms))
      else ([], Inr filteredVms))"

text \<open>\<open>if len(filteredVms) > 0 && d.config.Tags != nil { ... }\<close>\<close>

definition step_Tags ::
  "VCenterDriver \<Rightarrow> Config \<Rightarrow> VirtualMachine list \<Rightarrow> VirtualMachine list run"
where
  "step_Tags dr c filteredVms =
     (if length filteredVms > 0 \<and> Tags c \<noteq> None
      then ([(TagsStage, filteredVms)],
            wrapError ''failed to filter by tags''
              (filterByTags dr (elems (Tags c)) filteredVms))
      else ([], Inr filteredVms))"

text \<open>\<open>DatasourceOutput{VmName: filteredVms[0].Name()}\<close>, on a slice of handles.\<close>

definition makeOutput :: "VirtualMachine option list \<Rightarrow> failure + DatasourceOutput" where
  "makeOutput filteredVms =
     (case filteredVms of
        [] \<Rightarrow> Inl IndexOutOfRange
      | None # _ \<Rightarrow> Inl NilPointerDereference
      | Some vm # _ \<Rightarrow> Inr \<lparr>VmName = vm_Name vm\<rparr>)"

text \<open>
  The end of \<open>Execute\<close>, from \<open>if len(filteredVms) == 0\<close> on: the decision on the number
  of machines that the filters left.
\<close>

definition step_Select ::
  "VCenterDriver \<Rightarrow> Config \<Rightarrow> VirtualMachine list \<Rightarrow> DatasourceOutput run"
where
  "step_Select dr c filteredVms =
     (if length filteredVms = 0
      then ([], Inl (Error (ErrorNew ''no virtual machine matches the filters'')))
      else
        thenRun
          (if length filteredVms > 1 then
             (if Latest c
              then ([(LatestStage, filteredVms)],
                    wrapError ''failed to find the latest virtual machine''
                      (filterByLatest dr filteredVms))
              else ([], Inl (Error
                      (ErrorNew ''more than one virtual machine matched the filters''))))
           else ([], Inr (map Some filteredVms)))
          (\<lambda>vms. ([], makeOutput vms)))"

text \<open>
  The chain of the optional filters, from the list that the finder returned: the name,
  template and host filters, then the tag filter.
\<close>

definition filtersBeforeTags ::
  "Collaborators \<Rightarrow> VCenterDriver \<Rightarrow> Config \<Rightarrow> VirtualMachine list \<Rightarrow> VirtualMachine list run"
where
  "filtersBeforeTags env dr c vms =
     thenRun (thenRun (step_NameRegex env c vms) (step_Template dr c)) (step_Host dr c)"

definition filterChain ::
  "Collaborators \<Rightarrow> VCenterDriver \<Rightarrow> Config \<Rightarrow> VirtualMachine list \<Rightarrow> VirtualMachine list run"
where
  "filterChain env dr c vms = thenRun (filtersBeforeTags env dr c vms) (step_Tags dr c)"

definition Execute_run :: "Collaborators \<Rightarrow> Datasource \<Rightarrow> DatasourceOutput run" where
  "Execute_run env d =
     (case NewDriver env (ConnectConfig.truncate (config d)) of
        Inl err \<Rightarrow> ([], Inl (Error (Errorf ''failed to initialize driver'' err)))
      | Inr dr \<Rightarrow>
     (case Finder_VirtualMachineList dr (Name (config d)) of
        Inl err \<Rightarrow>
          ([], Inl (Error (Errorf ''failed to retrieve virtual machines list'' err)))
      | Inr filteredVms \<Rightarrow>
          thenRun (filterChain env dr (config d) filteredVms) (step_Select dr (config d))))"

definition Execute :: "Collaborators \<Rightarrow> Datasource \<Rightarrow> failure + DatasourceOutput" where
  "Execute env d = snd (Execute_run env d)"

subsection \<open>The wording of the specification\<close>

text \<open>
  The tag filter in the words of the specification: a required tag is attached when some
  attached tag has its name and a category identifier that resolves to its category
  name; a machine has all the tags when every required tag is attached.
\<close>

definition tagAttached :: "VCenterDriver \<Rightarrow> tags_Tag list \<Rightarrow> Tag \<Rightarrow> bool" where
  "tagAttached driver realTagsList configTag =
     list_ex (\<lambda>realTag. tag_Name configTag = at_Name realTag \<and>
        (case GetCategory driver (at_CategoryID realTag) of
           Inl _ \<Rightarrow> False
         | Inr category \<Rightarrow> cat_Name category = tag_Category configTag)) realTagsList"

definition hasAllTags :: "VCenterDriver \<Rightarrow> Tag list \<Rightarrow> VirtualMachine \<Rightarrow> bool" where
  "hasAllTags driver vmTags vm =
     (case GetAttachedTags driver (vm_Reference vm) of
        Inl _ \<Rightarrow> False
      | Inr realTagsList \<Rightarrow> list_all (tagAttached driver realTagsList) vmTags)"

text \<open>
  The violations of a decoded configuration, in the order in which one pass finds them:
  an empty \<open>vcenter_server\<close>, \<open>username\<close> or \<open>password\<close>, and one for every tag block
  that lacks its name or its category.
\<close>

definition incompleteTag :: "Tag \<Rightarrow> bool" where
  "incompleteTag tag = (tag_Name tag = [] \<or> tag_Category tag = [])"

definition violations :: "Config \<Rightarrow> error list" where
  "violations c =
     (if VCenterServer c = [] then [ErrorNew '''vcenter_server' is required''] else []) @
     (if Username c = [] then [ErrorNew '''username' is required''] else []) @
     (if Password c = [] then [ErrorNew '''password' is required''] else []) @
     map (\<lambda>tag. ErrorNew ''both name and category are required for tag'')
       (filter incompleteTag (elems (Tags c)))"

text \<open>
  A field of the configuration is set when it differs from its default: the empty
  string, \<open>false\<close>, the nil slice.
\<close>

definition configured :: "Config \<Rightarrow> stage \<Rightarrow> bool" where
  "configured c s =
     (case s of
        NameRegexStage \<Rightarrow> NameRegex c \<noteq> []
      | TemplateStage \<Rightarrow> Template c
      | HostStage \<Rightarrow> Host c \<noteq> []
      | TagsStage \<Rightarrow> Tags c \<noteq> None
      | LatestStage \<Rightarrow> Latest c)"

text \<open>
  A call of an optional filter is in order when the filter is configured and the list it
  is given is not empty. The latest-selection filter is not one of the optional filters.
\<close>

definition optionalCallInOrder :: "Config \<Rightarrow> stage \<times> VirtualMachine list \<Rightarrow> bool" where
  "optionalCallInOrder c call =
     (case call of (s, vms) \<Rightarrow> s = LatestStage \<or> (vms \<noteq> [] \<and> configured c s))"

subsection \<open>A sample inventory\<close>

text \<open>
  Three machines: \<open>web-1\<close> and \<open>web-2\<close> are templates tagged \<open>ops\<close> of category
  \<open>team\<close>, \<open>web-2\<close> is tagged \<open>prod\<close> of category \<open>tier\<close> as well; \<open>db-1\<close> has no
  tag. Host \<open>esx-1\<close> runs \<open>web-1\<close> and \<open>db-1\<close>. The creation dates are 100, 200 and 300.
\<close>

definition web1 :: VirtualMachine where
  "web1 = \<lparr>vm_Reference = ''vm-1'', vm_Name = ''web-1''\<rparr>"

definition web2 :: VirtualMachine where
  "web2 = \<lparr>vm_Reference = ''vm-2'', vm_Name = ''web-2''\<rparr>"

definition db1 :: VirtualMachine where
  "db1 = \<lparr>vm_Reference = ''vm-3'', vm_Name = ''db-1''\<rparr>"

definition opsTag :: tags_Tag where
  "opsTag = \<lparr>at_Name = ''ops'', at_CategoryID = ''cat-1''\<rparr>"

definition prodTag :: tags_Tag where
  "prodTag = \<lparr>at_Name = ''prod'', at_CategoryID = ''cat-2''\<rparr>"

definition sampleDate :: "VirtualMachine \<Rightarrow> Time" where
  "sampleDate vm =
     (if vm_Name vm = ''web-1'' then 100 else if vm_Name vm = ''web-2'' then 200 else 300)"

definition sampleDriver :: VCenterDriver where
  "sampleDriver =
     \<lparr>Finder_VirtualMachineList =
        (\<lambda>pattern. if pattern = ''*'' then Inr [web1, web2, db1]
                    else if pattern = ''web-*'' then Inr [web1, web2]
                    else Inl (ErrorNew ''vm not found'')),
      IsTemplate = (\<lambda>vm. Inr (vm_Name vm \<noteq> ''db-1'')),
      Finder_HostSystem =
        (\<lambda>name. if name = ''esx-1'' then Inr ''host-1''
                 else Inl (ErrorNew ''host not found'')),
      RetrieveOne_vm = (\<lambda>ref. Inr [''vm-1'', ''vm-3'']),
      Retrieve_name =
        (\<lambda>refs. Inr [\<lparr>mo_Name = ''web-1'', mo_Config = None\<rparr>,
                       \<lparr>mo_Name = ''db-1'', mo_Config = None\<rparr>]),
      GetAttachedTags =
        (\<lambda>ref. if ref = ''vm-1'' then Inr [opsTag]
                else if ref = ''vm-2'' then Inr [opsTag, prodTag]
                else Inr []),
      GetCategory =
        (\<lambda>id. if id = ''cat-1'' then Inr \<lparr>cat_ID = ''cat-1'', cat_Name = ''team''\<rparr>
               else if id = ''cat-2'' then Inr \<lparr>cat_ID = ''cat-2'', cat_Name = ''tier''\<rparr>
               else Inl (ErrorNew ''category not found'')),
      Properties_config =
        (\<lambda>vm. Inr \<lparr>mo_Name = [],
                      mo_Config = Some \<lparr>CreateDate = Some (sampleDate vm)\<rparr>\<rparr>)\<rparr>"

text \<open>The same inventory when every creation date is the zero instant.\<close>

definition zeroDatesDriver :: VCenterDriver where
  "zeroDatesDriver =
     sampleDriver\<lparr>Properties_config :=
       (\<lambda>vm. Inr \<lparr>mo_Name = [], mo_Config = Some \<lparr>CreateDate = Some 0\<rparr>\<rparr>)\<rparr>"

text \<open>The same inventory when vCenter reports no creation date at all.\<close>

definition noDatesDriver :: VCenterDriver where
  "noDatesDriver =
     sampleDriver\<lparr>Properties_config :=
       (\<lambda>vm. Inr \<lparr>mo_Name = [], mo_Config = Some \<lparr>CreateDate = None\<rparr>\<rparr>)\<rparr>"

text \<open>The same inventory when only \<open>web-1\<close> has a creation date.\<close>

definition oneDateDriver :: VCenterDriver where
  "oneDateDriver =
     sampleDriver\<lparr>Properties_config :=
       (\<lambda>vm. Inr \<lparr>mo_Name = [],
                     mo_Config = Some \<lparr>CreateDate =
                       (if vm_Name vm = ''web-1'' then Some 100 else None)\<rparr>\<rparr>)\<rparr>"

text \<open>The same inventory when the property collector fails.\<close>

definition propertiesFailDriver :: VCenterDriver where
  "propertiesFailDriver =
     sampleDriver\<lparr>Properties_config := (\<lambda>vm. Inl (ErrorNew ''permission denied''))\<rparr>"

text \<open>The same inventory when the tag manager fails.\<close>

definition tagsFailDriver :: VCenterDriver where
  "tagsFailDriver =
     sampleDriver\<lparr>GetAttachedTags := (\<lambda>ref. Inl (ErrorNew ''permission denied''))\<rparr>"

text \<open>
  The same inventory when the host runs two machines named \<open>web-1\<close> (of two folders).
\<close>

definition twinsDriver :: VCenterDriver where
  "twinsDriver =
     sampleDriver\<lparr>Retrieve_name :=
       (\<lambda>refs. Inr [\<lparr>mo_Name = ''web-1'', mo_Config = None\<rparr>,
                      \<lparr>mo_Name = ''web-1'', mo_Config = None\<rparr>])\<rparr>"

text \<open>
  A stand-in for \<open>regexp.Compile\<close> that knows three patterns and rejects every other
  string, among them \<open>(\<close>, which \<open>regexp.Compile\<close> rejects.
\<close>

definition sampleCompile :: "string \<Rightarrow> error + Regexp" where
  "sampleCompile pattern =
     (if pattern = ''^web-1$'' then Inr (\<lambda>s. s = ''web-1'')
      else if pattern = ''^web-'' then Inr (\<lambda>s. take 4 s = ''web-'')
      else if pattern = ''^none$'' then Inr (\<lambda>s. s = ''none'')
      else Inl (ErrorNew ''error parsing regexp''))"

definition sampleCollaborators :: "VCenterDriver \<Rightarrow> Collaborators" where
  "sampleCollaborators dr = \<lparr>regexp_Compile = sampleCompile, NewDriver = (\<lambda>c. Inr dr)\<rparr>"

definition sampleConfig :: Config where
  "sampleConfig =
     \<lparr>VCenterServer = ''vcenter.example.org'', Username = ''packer'', Password = ''secret'',
      InsecureConnection = False, Datacenter = [],
      Name = ''*'', NameRegex = [], Template = False, Host = [], Tags = None,
      Latest = False\<rparr>"

definition teamOps :: Tag where
  "teamOps = \<lparr>tag_Name = ''ops'', tag_Category = ''team''\<rparr>"

definition tierProd :: Tag where
  "tierProd = \<lparr>tag_Name = ''prod'', tag_Category = ''tier''\<rparr>"

section \<open>Properties of the filters\<close>

subsection \<open>The name, template and host filters\<close>

lemma regex_loop_Some:
  "filterByNameRegex_loop (Some r) result vmList =
     Inr (result @ filter (\<lambda>i. r (vm_Name i)) vmList)"
  by (induction vmList arbitrary: result) simp_all

lemma regex_loop_None:
  "filterByNameRegex_loop None result vmList =
     (if vmList = [] then Inr result else Inl NilPointerDereference)"
  by (cases vmList) simp_all

lemma regex_compiled:
  "compile nameRegex = Inr r \<Longrightarrow>
     filterByNameRegex compile vmList nameRegex = Inr (filter (\<lambda>i. r (vm_Name i)) vmList)"
  by (simp add: filterByNameRegex_def regex_loop_Some)

lemma regex_not_compiled:
  "compile nameRegex = Inl err \<Longrightarrow>
     filterByNameRegex compile vmList nameRegex =
       (if vmList = [] then Inr [] else Inl NilPointerDereference)"
  by (simp add: filterByNameRegex_def regex_loop_None)

lemma regex_length:
  "filterByNameRegex compile vmList nameRegex = Inr out \<Longrightarrow> length out \<le> length vmList"
proof (cases "compile nameRegex")
  case (Inl err)
  assume "filterByNameRegex compile vmList nameRegex = Inr out"
  with regex_not_compiled [of compile nameRegex _ vmList, OF Inl] show ?thesis
    by (simp split: if_splits)
next
  case (Inr r)
  assume "filterByNameRegex compile vmList nameRegex = Inr out"
  with regex_compiled [of compile nameRegex r vmList, OF Inr] show ?thesis by auto
qed

lemma template_loop_result:
  "filterByTemplate_loop driver result vmList = Inr out \<Longrightarrow>
     out = result @ filter (\<lambda>i. IsTemplate driver i = Inr True) vmList"
proof (induction vmList arbitrary: result)
  case Nil
  then show ?case by simp
next
  case (Cons i vmList)
  show ?case
  proof (cases "IsTemplate driver i")
    case (Inl err)
    with Cons.prems show ?thesis by simp
  next
    case (Inr isTemplate)
    with Cons.prems have
      "filterByTemplate_loop driver (if isTemplate then result @ [i] else result) vmList = Inr out"
      by simp
    from Cons.IH [OF this] Inr show ?thesis by simp
  qed
qed

lemma template_length:
  "filterByTemplate driver vmList = Inr out \<Longrightarrow> length out \<le> length vmList"
  unfolding filterByTemplate_def by (drule template_loop_result) simp

lemma host_inner_result:
  "filterByHost_inner v result hostVms =
     result @ replicate (length (filter (\<lambda>h. vm_Name v = mo_Name h) hostVms)) v"
proof (induction hostVms arbitrary: result)
  case Nil
  then show ?case by simp
next
  case (Cons h hostVms)
  then show ?case by (simp add: replicate_append_same)
qed

lemma distinct_names_once:
  "distinct (map mo_Name hostVms) \<Longrightarrow> length (filter (\<lambda>h. n = mo_Name h) hostVms) \<le> 1"
proof (induction hostVms)
  case Nil
  then show ?case by simp
next
  case (Cons h hostVms)
  then show ?case by (auto simp: filter_empty_conv)
qed

lemma host_loop_length:
  assumes "distinct (map mo_Name hostVms)"
  shows "length (filterByHost_loop hostVms result vmList) \<le> length result + length vmList"
proof (induction vmList arbitrary: result)
  case Nil
  then show ?case by simp
next
  case (Cons v vmList)
  have "length (filterByHost_inner v result hostVms) \<le> length result + 1"
    using distinct_names_once [OF assms, of "vm_Name v"] by (simp add: host_inner_result)
  moreover have "length (filterByHost_loop hostVms (filterByHost_inner v result hostVms) vmList)
      \<le> length (filterByHost_inner v result hostVms) + length vmList"
    by (rule Cons.IH)
  ultimately show ?case by simp
qed

lemma host_length:
  assumes out: "filterByHost driver c vmList = Inr out"
    and names: "\<And>obj refs hostVms.
      Finder_HostSystem driver (Host c) = Inr obj \<Longrightarrow> RetrieveOne_vm driver obj = Inr refs \<Longrightarrow>
      Retrieve_name driver refs = Inr hostVms \<Longrightarrow> distinct (map mo_Name hostVms)"
  shows "length out \<le> length vmList"
proof -
  from out obtain obj where obj: "Finder_HostSystem driver (Host c) = Inr obj"
    by (cases "Finder_HostSystem driver (Host c)") (simp_all add: filterByHost_def)
  from out obj obtain refs where refs: "RetrieveOne_vm driver obj = Inr refs"
    by (cases "RetrieveOne_vm driver obj") (simp_all add: filterByHost_def)
  from out obj refs obtain hostVms where hostVms: "Retrieve_name driver refs = Inr hostVms"
    by (cases "Retrieve_name driver refs") (simp_all add: filterByHost_def)
  from out obj refs hostVms have "out = filterByHost_loop hostVms [] vmList"
    by (simp add: filterByHost_def)
  with host_loop_length [OF names [OF obj refs hostVms], of "[]" vmList] show ?thesis
    by simp
qed

subsection \<open>The tag filter\<close>

lemma scan_result:
  "filterByTags_scan driver configTag realTagsList = Inr b \<Longrightarrow>
     b = tagAttached driver realTagsList configTag"
proof (induction realTagsList)
  case Nil
  then show ?case by (simp add: tagAttached_def)
next
  case (Cons realTag realTagsList)
  show ?case
  proof (cases "tag_Name configTag = at_Name realTag")
    case False
    with Cons show ?thesis by (simp add: tagAttached_def)
  next
    case True
    show ?thesis
    proof (cases "GetCategory driver (at_CategoryID realTag)")
      case (Inl err)
      with True Cons.prems show ?thesis by simp
    next
      case (Inr category)
      with True Cons show ?thesis
        by (cases "tag_Category configTag = cat_Name category")
           (auto simp: tagAttached_def)
    qed
  qed
qed

lemma count_result:
  "filterByTags_count driver realTagsList n vmTags = Inr m \<Longrightarrow>
     n \<le> m \<and> m \<le> n + length vmTags \<and>
     (m = n + length vmTags \<longleftrightarrow> list_all (tagAttached driver realTagsList) vmTags)"
proof (induction vmTags arbitrary: n)
  case Nil
  then show ?case by simp
next
  case (Cons configTag vmTags)
  show ?case
  proof (cases "filterByTags_scan driver configTag realTagsList")
    case (Inl e)
    with Cons.prems show ?thesis by simp
  next
    case (Inr configTagMatched)
    note scan = scan_result [OF Inr]
    show ?thesis
    proof (cases configTagMatched)
      case True
      with Inr Cons.prems have "filterByTags_count driver realTagsList (n + 1) vmTags = Inr m"
        by simp
      from Cons.IH [OF this] True scan show ?thesis by auto
    next
      case False
      with Inr Cons.prems have "m = n" by simp
      with False scan show ?thesis by simp
    qed
  qed
qed

lemma tags_loop_result:
  "filterByTags_loop driver vmTags result vmList = Inr out \<Longrightarrow>
     out = result @ filter (hasAllTags driver vmTags) vmList"
proof (induction vmList arbitrary: result)
  case Nil
  then show ?case by simp
next
  case (Cons filteredVm vmList)
  show ?case
  proof (cases "GetAttachedTags driver (vm_Reference filteredVm)")
    case (Inl err)
    with Cons.prems show ?thesis by simp
  next
    case tags: (Inr realTagsList)
    show ?thesis
    proof (cases "filterByTags_count driver realTagsList 0 vmTags")
      case (Inl e)
      with tags Cons.prems show ?thesis by simp
    next
      case (Inr matchedTagsCount)
      from count_result [OF Inr]
      have keep: "(matchedTagsCount = length vmTags) = hasAllTags driver vmTags filteredVm"
        by (simp add: hasAllTags_def tags)
      from tags Inr Cons.prems have
        "filterByTags_loop driver vmTags
           (if matchedTagsCount = length vmTags then result @ [filteredVm] else result) vmList
         = Inr out"
        by simp
      from Cons.IH [OF this] keep show ?thesis by simp
    qed
  qed
qed

lemma tags_result:
  "filterByTags driver vmTags vmList = Inr out \<Longrightarrow>
     out = filter (hasAllTags driver vmTags) vmList"
  unfolding filterByTags_def by (drule tags_loop_result) simp

lemma tags_length:
  "filterByTags driver vmTags vmList = Inr out \<Longrightarrow> length out \<le> length vmList"
  by (drule tags_result) simp

lemma scan_total:
  "\<forall>realTag \<in> set realTagsList. \<exists>category.
      GetCategory driver (at_CategoryID realTag) = Inr category
   \<Longrightarrow> \<exists>b. filterByTags_scan driver configTag realTagsList = Inr b"
  by (induction realTagsList) auto

lemma count_total:
  "\<forall>realTag \<in> set realTagsList. \<exists>category.
      GetCategory driver (at_CategoryID realTag) = Inr category
   \<Longrightarrow> \<exists>m. filterByTags_count driver realTagsList n vmTags = Inr m"
proof (induction vmTags arbitrary: n)
  case Nil
  then show ?case by simp
next
  case (Cons configTag vmTags)
  from scan_total [OF Cons.prems] obtain b
    where "filterByTags_scan driver configTag realTagsList = Inr b" by blast
  with Cons.IH [OF Cons.prems] show ?case by simp
qed

lemma tags_loop_total:
  "\<forall>vm \<in> set vmList. \<exists>realTagsList.
      GetAttachedTags driver (vm_Reference vm) = Inr realTagsList \<and>
      (\<forall>realTag \<in> set realTagsList. \<exists>category.
          GetCategory driver (at_CategoryID realTag) = Inr category)
   \<Longrightarrow> \<exists>out. filterByTags_loop driver vmTags result vmList = Inr out"
proof (induction vmList arbitrary: result)
  case Nil
  then show ?case by simp
next
  case (Cons filteredVm vmList)
  from Cons.prems obtain realTagsList where
    tags: "GetAttachedTags driver (vm_Reference filteredVm) = Inr realTagsList" and
    cats: "\<forall>realTag \<in> set realTagsList. \<exists>category.
          GetCategory driver (at_CategoryID realTag) = Inr category"
    by auto
  from count_total [OF cats] obtain m
    where m: "filterByTags_count driver realTagsList 0 vmTags = Inr m" by blast
  from Cons.prems have rest: "\<forall>vm \<in> set vmList. \<exists>realTagsList.
      GetAttachedTags driver (vm_Reference vm) = Inr realTagsList \<and>
      (\<forall>realTag \<in> set realTagsList. \<exists>category.
          GetCategory driver (at_CategoryID realTag) = Inr category)"
    by simp
  from Cons.IH [OF rest] tags m show ?case by simp
qed

lemma tags_empty_loop:
  "\<forall>vm \<in> set vmList. \<exists>realTagsList.
      GetAttachedTags driver (vm_Reference vm) = Inr realTagsList
   \<Longrightarrow> filterByTags_loop driver [] result vmList = Inr (result @ vmList)"
proof (induction vmList arbitrary: result)
  case Nil
  then show ?case by simp
next
  case (Cons filteredVm vmList)
  from Cons.prems obtain realTagsList where
    "GetAttachedTags driver (vm_Reference filteredVm) = Inr realTagsList" by auto
  moreover from Cons.prems have "\<forall>vm \<in> set vmList. \<exists>realTagsList.
      GetAttachedTags driver (vm_Reference vm) = Inr realTagsList" by simp
  from Cons.IH [OF this] have
    "filterByTags_loop driver [] (result @ [filteredVm]) vmList =
       Inr ((result @ [filteredVm]) @ vmList)" .
  ultimately show ?case by simp
qed

lemma tags_empty_returned:
  "filterByTags_loop driver [] result vmList = Inr out \<Longrightarrow> out = result @ vmList"
proof (induction vmList arbitrary: result)
  case Nil
  then show ?case by simp
next
  case (Cons filteredVm vmList)
  show ?case
  proof (cases "GetAttachedTags driver (vm_Reference filteredVm)")
    case (Inl err)
    with Cons.prems show ?thesis by simp
  next
    case (Inr realTagsList)
    with Cons.prems have
      "filterByTags_loop driver [] (result @ [filteredVm]) vmList = Inr out" by simp
    from Cons.IH [OF this] show ?thesis by simp
  qed
qed

subsection \<open>The latest-selection filter\<close>

lemma latest_loop_step:
  assumes "Properties_config driver e = Inr m" "mo_Config m = Some c" "CreateDate c = Some t"
  shows "filterByLatest_loop driver latestVM latestTimestamp (e # vmList) =
     (if latestTimestamp < t then filterByLatest_loop driver (Some e) t vmList
      else filterByLatest_loop driver latestVM latestTimestamp vmList)"
  using assms by (simp add: After_def)

text \<open>
  When every machine of the list has a creation date, \<open>date\<close>, the loop ends with the
  first machine whose date is after the starting timestamp and is not exceeded in the
  list, and with the starting handle when there is no such machine.
\<close>

lemma latest_loop_dates:
  assumes "\<forall>v \<in> set vmList. \<exists>m c.
     Properties_config driver v = Inr m \<and> mo_Config m = Some c \<and> CreateDate c = Some (date v)"
  shows "filterByLatest_loop driver latestVM latestTimestamp vmList =
     Inr (if \<exists>v \<in> set vmList. latestTimestamp < date v
          then find (\<lambda>v. latestTimestamp < date v \<and> (\<forall>u \<in> set vmList. date u \<le> date v))
                 vmList
          else latestVM)"
  using assms
proof (induction vmList arbitrary: latestVM latestTimestamp)
  case Nil
  then show ?case by simp
next
  case (Cons e vmList)
  from Cons.prems obtain m c where
    e: "Properties_config driver e = Inr m" "mo_Config m = Some c" "CreateDate c = Some (date e)"
    by auto
  from Cons.prems have rest: "\<forall>v \<in> set vmList. \<exists>m c.
     Properties_config driver v = Inr m \<and> mo_Config m = Some c \<and> CreateDate c = Some (date v)"
    by simp
  note step = latest_loop_step [OF e]
  show ?case
  proof (cases "latestTimestamp < date e")
    case True
    note IH = Cons.IH [OF rest, of "Some e" "date e"]
    show ?thesis
    proof (cases "\<exists>v \<in> set vmList. date e < date v")
      case False
      then have "\<forall>u \<in> set vmList. date u \<le> date e" by (auto simp: not_less)
      with True False IH step show ?thesis by simp
    next
      case later: True
      have "find (\<lambda>v. date e < date v \<and> (\<forall>u \<in> set vmList. date u \<le> date v)) vmList =
            find (\<lambda>v. latestTimestamp < date v \<and> (\<forall>u \<in> set (e # vmList). date u \<le> date v))
              vmList"
        using True later by (intro find_cong) auto
      moreover from later have "\<not> (\<forall>u \<in> set vmList. date u \<le> date e)"
        by (auto simp: not_le)
      ultimately show ?thesis using True later IH step by auto
    qed
  next
    case False
    note IH = Cons.IH [OF rest, of latestVM latestTimestamp]
    have "find (\<lambda>v. latestTimestamp < date v \<and> (\<forall>u \<in> set vmList. date u \<le> date v)) vmList =
          find (\<lambda>v. latestTimestamp < date v \<and> (\<forall>u \<in> set (e # vmList). date u \<le> date v))
            vmList"
      using False by (intro find_cong) auto
    with False IH step show ?thesis by auto
  qed
qed

text \<open>
  With a creation date for every machine and one of them not zero, the filter returns
  the first machine of the list whose date no other date exceeds.
\<close>

lemma latest_dates:
  assumes dated: "\<forall>v \<in> set vmList. \<exists>m c.
     Properties_config driver v = Inr m \<and> mo_Config m = Some c \<and> CreateDate c = Some (date v)"
    and some: "\<exists>v \<in> set vmList. date v \<noteq> 0"
  shows "filterByLatest driver vmList =
     Inr [find (\<lambda>v. \<forall>u \<in> set vmList. date u \<le> date v) vmList]"
proof -
  from some obtain w where w: "w \<in> set vmList" "0 < date w" by auto
  have "find (\<lambda>v. 0 < date v \<and> (\<forall>u \<in> set vmList. date u \<le> date v)) vmList =
        find (\<lambda>v. \<forall>u \<in> set vmList. date u \<le> date v) vmList"
  proof (intro find_cong refl)
    fix v assume "v \<in> set vmList"
    show "(0 < date v \<and> (\<forall>u \<in> set vmList. date u \<le> date v)) =
          (\<forall>u \<in> set vmList. date u \<le> date v)"
      using w by (auto dest: bspec [where x = w])
  qed
  with w show ?thesis
    unfolding filterByLatest_def latest_loop_dates [OF dated, of None 0] by auto
qed

text \<open>With the zero instant for every creation date, the filter returns the nil handle.\<close>

lemma latest_zero_dates:
  assumes dated: "\<forall>v \<in> set vmList. \<exists>m c.
     Properties_config driver v = Inr m \<and> mo_Config m = Some c \<and> CreateDate c = Some 0"
  shows "filterByLatest driver vmList = Inr [None]"
  unfolding filterByLatest_def latest_loop_dates [where date = "\<lambda>_. 0", OF dated, of None 0]
  by simp

text \<open>
  The first machine whose date no other date exceeds exists in a list that is not empty;
  every machine before it has a strictly earlier date.
\<close>

lemma find_max_first:
  assumes "vmList \<noteq> []"
  shows "\<exists>i < length vmList.
     find (\<lambda>v. \<forall>u \<in> set vmList. (date u :: nat) \<le> date v) vmList = Some (vmList ! i) \<and>
     (\<forall>u \<in> set vmList. date u \<le> date (vmList ! i)) \<and>
     (\<forall>j < i. date (vmList ! j) < date (vmList ! i))"
proof -
  define P where "P = (\<lambda>v. \<forall>u \<in> set vmList. date u \<le> date v)"
  from assms have "date ` set vmList \<noteq> {}" "finite (date ` set vmList)" by auto
  then have "Max (date ` set vmList) \<in> date ` set vmList" by (rule_tac Max_in)
  then obtain w where w: "w \<in> set vmList" "date w = Max (date ` set vmList)" by auto
  then have "P w" unfolding P_def by auto
  with w have "find P vmList \<noteq> None" unfolding find_None_iff by blast
  then obtain x where x: "find P vmList = Some x" by blast
  then obtain i where i: "i < length vmList" "P (vmList ! i)" "x = vmList ! i"
      "\<forall>j < i. \<not> P (vmList ! j)"
    unfolding find_Some_iff by blast
  have "\<forall>j < i. date (vmList ! j) < date (vmList ! i)"
  proof (intro allI impI)
    fix j assume j: "j < i"
    with i have "\<not> P (vmList ! j)" by blast
    then obtain u where u: "u \<in> set vmList" "date (vmList ! j) < date u"
      unfolding P_def by (auto simp: not_le)
    from i(2) u(1) have "date u \<le> date (vmList ! i)" unfolding P_def by blast
    with u(2) show "date (vmList ! j) < date (vmList ! i)" by simp
  qed
  moreover from i(2) have "\<forall>u \<in> set vmList. date u \<le> date (vmList ! i)"
    unfolding P_def .
  ultimately show ?thesis using i(1,3) x unfolding P_def by blast
qed

lemma latest_length:
  "vmList \<noteq> [] \<Longrightarrow> filterByLatest driver vmList = Inr out \<Longrightarrow> length out \<le> length vmList"
  by (cases vmList) (auto simp: filterByLatest_def split: sum.splits)

subsection \<open>The run of Execute\<close>


lemma thenRun_failed: "snd m = Inl e \<Longrightarrow> thenRun m f = (fst m, Inl e)"
  by (cases m) (simp add: thenRun_def)

lemma thenRun_passed:
  "snd m = Inr x \<Longrightarrow> thenRun m f = (fst m @ fst (f x), snd (f x))"
  by (cases m; cases "f x") (simp add: thenRun_def)

lemma thenRun_calls:
  assumes "list_all Q (fst m)" and "\<And>x. snd m = Inr x \<Longrightarrow> list_all Q (fst (f x))"
  shows "list_all Q (fst (thenRun m f))"
proof (cases "snd m")
  case (Inl e)
  with assms(1) show ?thesis by (simp add: thenRun_failed)
next
  case (Inr x)
  with assms show ?thesis by (simp add: thenRun_passed)
qed

lemma Execute_run_after_filters:
  assumes "NewDriver env (ConnectConfig.truncate (config d)) = Inr dr"
    and "Finder_VirtualMachineList dr (Name (config d)) = Inr found"
    and "snd (filterChain env dr (config d) found) = Inr survivors"
  shows "Execute_run env d =
     (fst (filterChain env dr (config d) found) @ fst (step_Select dr (config d) survivors),
      snd (step_Select dr (config d) survivors))"
  using assms by (simp add: Execute_run_def thenRun_passed)

lemma Execute_after_filters:
  assumes "NewDriver env (ConnectConfig.truncate (config d)) = Inr dr"
    and "Finder_VirtualMachineList dr (Name (config d)) = Inr found"
    and "snd (filterChain env dr (config d) found) = Inr survivors"
  shows "Execute env d = snd (step_Select dr (config d) survivors)"
  by (simp add: Execute_def Execute_run_after_filters [OF assms])

lemma select_none:
  "step_Select dr c [] = ([], Inl (Error (ErrorNew ''no virtual machine matches the filters'')))"
  by (simp add: step_Select_def)

lemma select_one: "step_Select dr c [vm] = ([], Inr \<lparr>VmName = vm_Name vm\<rparr>)"
  by (simp add: step_Select_def thenRun_def makeOutput_def)

lemma select_many:
  "1 < length vms \<Longrightarrow> \<not> Latest c \<Longrightarrow>
     step_Select dr c vms =
       ([], Inl (Error (ErrorNew ''more than one virtual machine matched the filters'')))"
  by (cases vms) (simp_all add: step_Select_def thenRun_def)

lemma select_latest:
  "1 < length vms \<Longrightarrow> Latest c \<Longrightarrow>
     step_Select dr c vms =
       ([(LatestStage, vms)],
        (case wrapError ''failed to find the latest virtual machine'' (filterByLatest dr vms) of
           Inl e \<Rightarrow> Inl e
         | Inr latest \<Rightarrow> makeOutput latest))"
  by (cases vms) (auto simp: step_Select_def thenRun_def split: sum.splits)

lemma select_calls: "list_all (optionalCallInOrder c) (fst (step_Select dr c vms))"
  by (auto simp: step_Select_def thenRun_def optionalCallInOrder_def split: sum.splits)

lemma regex_calls:
  "vms \<noteq> [] \<Longrightarrow> list_all (optionalCallInOrder c) (fst (step_NameRegex env c vms))"
  by (simp add: step_NameRegex_def optionalCallInOrder_def configured_def)

lemma template_calls: "list_all (optionalCallInOrder c) (fst (step_Template dr c vms))"
  by (simp add: step_Template_def optionalCallInOrder_def configured_def)

lemma host_calls: "list_all (optionalCallInOrder c) (fst (step_Host dr c vms))"
  by (simp add: step_Host_def optionalCallInOrder_def configured_def)

lemma tags_calls: "list_all (optionalCallInOrder c) (fst (step_Tags dr c vms))"
  by (simp add: step_Tags_def optionalCallInOrder_def configured_def)

lemma chain_calls:
  "vms \<noteq> [] \<Longrightarrow> list_all (optionalCallInOrder c) (fst (filterChain env dr c vms))"
  unfolding filterChain_def filtersBeforeTags_def
  by (intro thenRun_calls regex_calls template_calls host_calls tags_calls)

lemma before_tags_stages:
  "list_all (\<lambda>call. fst call \<noteq> TagsStage) (fst (filtersBeforeTags env dr c vms))"
  unfolding filtersBeforeTags_def
  by (intro thenRun_calls) (simp_all add: step_NameRegex_def step_Template_def step_Host_def)

lemma select_stages: "list_all (\<lambda>call. fst call \<noteq> TagsStage) (fst (step_Select dr c vms))"
  by (auto simp: step_Select_def thenRun_def split: sum.splits)

lemma Execute_run_at_tags:
  assumes "NewDriver env (ConnectConfig.truncate (config d)) = Inr dr"
    and "Finder_VirtualMachineList dr (Name (config d)) = Inr found"
    and "snd (filtersBeforeTags env dr (config d) found) = Inr vms"
  shows "((TagsStage, vms) \<in> set (fst (Execute_run env d))) = (vms \<noteq> [] \<and> Tags (config d) \<noteq> None)"
proof -
  let ?c = "config d"
  have chain: "filterChain env dr ?c found =
      (fst (filtersBeforeTags env dr ?c found) @ fst (step_Tags dr ?c vms),
       snd (step_Tags dr ?c vms))"
    using assms(3) by (simp add: filterChain_def thenRun_passed)
  obtain rest where run: "fst (Execute_run env d) =
      fst (filtersBeforeTags env dr ?c found) @ fst (step_Tags dr ?c vms) @ rest"
      and rest: "list_all (\<lambda>call. fst call \<noteq> TagsStage) rest"
  proof (cases "snd (step_Tags dr ?c vms)")
    case (Inl e)
    with assms chain have "fst (Execute_run env d) =
        fst (filtersBeforeTags env dr ?c found) @ fst (step_Tags dr ?c vms) @ []"
      by (simp add: Execute_run_def thenRun_failed)
    then show ?thesis using that by simp
  next
    case (Inr survivors)
    with assms chain have "fst (Execute_run env d) =
        fst (filtersBeforeTags env dr ?c found) @ fst (step_Tags dr ?c vms) @
        fst (step_Select dr ?c survivors)"
      by (simp add: Execute_run_def thenRun_passed)
    then show ?thesis using that select_stages by blast
  qed
  have "(TagsStage, vms) \<notin> set (fst (filtersBeforeTags env dr ?c found))"
    using before_tags_stages [of env dr ?c found] by (auto simp: list_all_iff)
  moreover have "(TagsStage, vms) \<notin> set rest"
    using rest by (auto simp: list_all_iff)
  ultimately have "((TagsStage, vms) \<in> set (fst (Execute_run env d))) =
      ((TagsStage, vms) \<in> set (fst (step_Tags dr ?c vms)))"
    by (simp add: run)
  then show ?thesis by (simp add: step_Tags_def)
qed

subsection \<open>Unfolding the sample inventory\<close>

lemmas sample_defs = sampleDriver_def web1_def web2_def db1_def opsTag_def prodTag_def
  sampleDate_def sampleCompile_def sampleCollaborators_def sampleConfig_def teamOps_def
  tierProd_def zeroDatesDriver_def noDatesDriver_def oneDateDriver_def
  propertiesFailDriver_def tagsFailDriver_def twinsDriver_def

lemmas run_defs = Execute_def Execute_run_def filterChain_def filtersBeforeTags_def
  step_NameRegex_def step_Template_def step_Host_def step_Tags_def step_Select_def
  thenRun_def wrapError_def makeOutput_def elems_def filterByNameRegex_def
  filterByTemplate_def filterByHost_def filterByTags_def filterByLatest_def After_def
  ConnectConfig.truncate_def

subsection \<open>Configure\<close>

lemma MultiErrorAppend_elems: "MultiErrorAppend errs e = Some (elems errs @ [e])"
  by (cases errs) (simp_all add: MultiErrorAppend_def elems_def)

lemma Configure_tags_result:
  "Configure_tags errs tags =
     (if filter incompleteTag tags = [] then errs
      else Some (elems errs @
             map (\<lambda>tag. ErrorNew ''both name and category are required for tag'')
               (filter incompleteTag tags)))"
proof (induction tags arbitrary: errs)
  case Nil
  then show ?case by simp
next
  case (Cons tag tags)
  show ?case
  proof (cases "incompleteTag tag")
    case True
    then have "Configure_tags errs (tag # tags) =
        Configure_tags
          (Some (elems errs @ [ErrorNew ''both name and category are required for tag'']))
          tags"
      by (simp add: incompleteTag_def MultiErrorAppend_elems)
    with True show ?thesis by (simp add: Cons.IH elems_def)
  next
    case False
    then have "Configure_tags errs (tag # tags) = Configure_tags errs tags"
      by (simp add: incompleteTag_def)
    with False show ?thesis by (simp add: Cons.IH)
  qed
qed

lemma violations_Name: "violations (c\<lparr>Name := n\<rparr>) = violations c"
  by (simp add: violations_def)

lemma Configure_decoded:
  assumes "decode raws = Inr c"
  shows "snd (Configure decode raws d) =
     (if violations c = [] then None else Some (MultiError (violations c)))"
proof (cases "Name c = []")
  case True
  with assms show ?thesis
    by (simp add: Configure_def Let_def violations_def Configure_tags_result
          MultiErrorAppend_def elems_def split: option.splits)
next
  case False
  with assms show ?thesis
    by (simp add: Configure_def Let_def violations_def Configure_tags_result
          MultiErrorAppend_def elems_def split: option.splits)
qed

lemma Configure_not_decoded:
  "decode raws = Inl err \<Longrightarrow> snd (Configure decode raws d) = Some err"
  by (simp add: Configure_def)

lemma violations_none:
  "(violations c = []) =
     (VCenterServer c \<noteq> [] \<and> Username c \<noteq> [] \<and> Password c \<noteq> [] \<and>
      \<not> (\<exists>tag \<in> set (elems (Tags c)). tag_Name tag = [] \<or> tag_Category tag = []))"
  by (auto simp: violations_def filter_empty_conv incompleteTag_def)

section \<open>The claims\<close>

subsection \<open>C1: the decision on the number of machines left\<close>

text \<open>
  Claim C1 says that, for every configuration and inventory, after the filters have run,
  no machine left is an error, one machine left is a success with its name, several
  machines left without \<open>Latest\<close> are an error, and several machines left with
  \<open>Latest\<close> are reduced to the machine of the latest creation date before success.

  The last part fails on two inventories with \<open>Latest\<close> set and three machines left:
  when the property collector fails, \<open>Execute\<close> returns the error of the
  latest-selection filter, wrapped; when every creation date is the zero instant, the
  filter returns the nil handle and \<open>Execute\<close> dereferences it.
\<close>

theorem C1_latest_counterexample:
  "snd (filterChain (sampleCollaborators propertiesFailDriver) propertiesFailDriver
          (sampleConfig\<lparr>Latest := True\<rparr>) [web1, web2, db1]) = Inr [web1, web2, db1]
   \<and> Execute (sampleCollaborators propertiesFailDriver)
        \<lparr>config = sampleConfig\<lparr>Latest := True\<rparr>\<rparr> =
      Inl (Error (Errorf ''failed to find the latest virtual machine''
        (Errorf ''error retrieving config properties for the virtual machine''
          (ErrorNew ''permission denied''))))
   \<and> snd (filterChain (sampleCollaborators zeroDatesDriver) zeroDatesDriver
          (sampleConfig\<lparr>Latest := True\<rparr>) [web1, web2, db1]) = Inr [web1, web2, db1]
   \<and> Execute (sampleCollaborators zeroDatesDriver)
        \<lparr>config = sampleConfig\<lparr>Latest := True\<rparr>\<rparr> = Inl NilPointerDereference"
  by (simp add: run_defs sample_defs)

text \<open>
  Claim C1, amended: when the filters have left the list \<open>survivors\<close>,
  \<^item> an empty list makes \<open>Execute\<close> return the error "no virtual machine matches the
    filters";
  \<^item> a list of one machine makes it return the name of that machine;
  \<^item> a longer list without \<open>Latest\<close> makes it return the error "more than one virtual
    machine matched the filters";
  \<^item> a longer list with \<open>Latest\<close> goes through the latest-selection filter: an error
    of the filter is returned, wrapped by "failed to find the latest virtual machine";
    when every machine left has a creation date and one of the dates is not the zero
    instant, \<open>Execute\<close> returns the name of the first machine of the list whose date no
    other date exceeds.
\<close>

theorem C1_Execute_cardinality:
  assumes drv: "NewDriver env (ConnectConfig.truncate (config d)) = Inr dr"
    and found: "Finder_VirtualMachineList dr (Name (config d)) = Inr found"
    and survivors: "snd (filterChain env dr (config d) found) = Inr survivors"
  shows
    "(survivors = [] \<longrightarrow>
        Execute env d = Inl (Error (ErrorNew ''no virtual machine matches the filters'')))
     \<and> (\<forall>vm. survivors = [vm] \<longrightarrow> Execute env d = Inr \<lparr>VmName = vm_Name vm\<rparr>)
     \<and> (1 < length survivors \<and> \<not> Latest (config d) \<longrightarrow>
          Execute env d =
            Inl (Error (ErrorNew ''more than one virtual machine matched the filters'')))
     \<and> (1 < length survivors \<and> Latest (config d) \<longrightarrow>
          (\<forall>err. filterByLatest dr survivors = Inl (Error err) \<longrightarrow>
             Execute env d =
               Inl (Error (Errorf ''failed to find the latest virtual machine'' err)))
          \<and> ((\<forall>v \<in> set survivors. \<exists>m c. Properties_config dr v = Inr m \<and>
                  mo_Config m = Some c \<and> CreateDate c = Some (date v))
               \<and> (\<exists>v \<in> set survivors. date v \<noteq> 0) \<longrightarrow>
              (\<exists>w. find (\<lambda>v. \<forall>u \<in> set survivors. date u \<le> date v) survivors = Some w
                  \<and> Execute env d = Inr \<lparr>VmName = vm_Name w\<rparr>)))"
proof -
  note run = Execute_after_filters [OF drv found survivors]
  have none: "survivors = [] \<longrightarrow>
      Execute env d = Inl (Error (ErrorNew ''no virtual machine matches the filters''))"
    by (simp add: run select_none)
  have one: "\<forall>vm. survivors = [vm] \<longrightarrow> Execute env d = Inr \<lparr>VmName = vm_Name vm\<rparr>"
    by (simp add: run select_one)
  have many: "1 < length survivors \<and> \<not> Latest (config d) \<longrightarrow>
      Execute env d =
        Inl (Error (ErrorNew ''more than one virtual machine matched the filters''))"
    by (simp add: run select_many)
  have failed: "1 < length survivors \<and> Latest (config d) \<longrightarrow>
      (\<forall>err. filterByLatest dr survivors = Inl (Error err) \<longrightarrow>
         Execute env d =
           Inl (Error (Errorf ''failed to find the latest virtual machine'' err)))"
    by (simp add: run select_latest wrapError_def)
  have latest: "1 < length survivors \<and> Latest (config d) \<longrightarrow>
      ((\<forall>v \<in> set survivors. \<exists>m c. Properties_config dr v = Inr m \<and>
            mo_Config m = Some c \<and> CreateDate c = Some (date v))
         \<and> (\<exists>v \<in> set survivors. date v \<noteq> 0) \<longrightarrow>
        (\<exists>w. find (\<lambda>v. \<forall>u \<in> set survivors. date u \<le> date v) survivors = Some w
            \<and> Execute env d = Inr \<lparr>VmName = vm_Name w\<rparr>))"
  proof (intro impI, elim conjE)
    assume len: "1 < length survivors" and l: "Latest (config d)"
      and dated: "\<forall>v \<in> set survivors. \<exists>m c. Properties_config dr v = Inr m \<and>
            mo_Config m = Some c \<and> CreateDate c = Some (date v)"
      and some: "\<exists>v \<in> set survivors. date v \<noteq> 0"
    from len have "survivors \<noteq> []" by auto
    from find_max_first [OF this, of date] obtain w where
      w: "find (\<lambda>v. \<forall>u \<in> set survivors. date u \<le> date v) survivors = Some w" by blast
    with latest_dates [OF dated some] have "filterByLatest dr survivors = Inr [Some w]"
      by simp
    with len l have "Execute env d = Inr \<lparr>VmName = vm_Name w\<rparr>"
      by (simp add: run select_latest wrapError_def makeOutput_def)
    with w show "\<exists>w. find (\<lambda>v. \<forall>u \<in> set survivors. date u \<le> date v) survivors = Some w
        \<and> Execute env d = Inr \<lparr>VmName = vm_Name w\<rparr>" by blast
  qed
  from none one many failed latest show ?thesis by blast
qed

theorem C1_Execute_cardinality_witness:
  "Execute (sampleCollaborators sampleDriver)
     \<lparr>config = sampleConfig\<lparr>NameRegex := ''^none$''\<rparr>\<rparr> =
     Inl (Error (ErrorNew ''no virtual machine matches the filters''))
   \<and> Execute (sampleCollaborators sampleDriver)
       \<lparr>config = sampleConfig\<lparr>NameRegex := ''^web-1$''\<rparr>\<rparr> = Inr \<lparr>VmName = ''web-1''\<rparr>
   \<and> Execute (sampleCollaborators sampleDriver) \<lparr>config = sampleConfig\<rparr> =
       Inl (Error (ErrorNew ''more than one virtual machine matched the filters''))
   \<and> Execute (sampleCollaborators sampleDriver)
       \<lparr>config = sampleConfig\<lparr>Latest := True\<rparr>\<rparr> = Inr \<lparr>VmName = ''db-1''\<rparr>"
proof -
  let ?env = "sampleCollaborators sampleDriver"
  let ?d1 = "\<lparr>config = sampleConfig\<lparr>NameRegex := ''^none$''\<rparr>\<rparr>"
  let ?d2 = "\<lparr>config = sampleConfig\<lparr>NameRegex := ''^web-1$''\<rparr>\<rparr>"
  let ?d3 = "\<lparr>config = sampleConfig\<rparr>"
  let ?d4 = "\<lparr>config = sampleConfig\<lparr>Latest := True\<rparr>\<rparr>"
  have drv: "NewDriver ?env (ConnectConfig.truncate (config d)) = Inr sampleDriver" for d
    by (simp add: sampleCollaborators_def)
  have f1: "Finder_VirtualMachineList sampleDriver (Name (config ?d1)) = Inr [web1, web2, db1]"
    by (simp add: sampleDriver_def sampleConfig_def)
  have f2: "Finder_VirtualMachineList sampleDriver (Name (config ?d2)) = Inr [web1, web2, db1]"
    by (simp add: sampleDriver_def sampleConfig_def)
  have f3: "Finder_VirtualMachineList sampleDriver (Name (config ?d3)) = Inr [web1, web2, db1]"
    by (simp add: sampleDriver_def sampleConfig_def)
  have f4: "Finder_VirtualMachineList sampleDriver (Name (config ?d4)) = Inr [web1, web2, db1]"
    by (simp add: sampleDriver_def sampleConfig_def)
  have s1: "snd (filterChain ?env sampleDriver (config ?d1) [web1, web2, db1]) = Inr []"
    by (simp add: run_defs sample_defs)
  have s2: "snd (filterChain ?env sampleDriver (config ?d2) [web1, web2, db1]) = Inr [web1]"
    by (simp add: run_defs sample_defs)
  have s3: "snd (filterChain ?env sampleDriver (config ?d3) [web1, web2, db1]) =
      Inr [web1, web2, db1]"
    by (simp add: run_defs sample_defs)
  have s4: "snd (filterChain ?env sampleDriver (config ?d4) [web1, web2, db1]) =
      Inr [web1, web2, db1]"
    by (simp add: run_defs sample_defs)
  from C1_Execute_cardinality [OF drv f1 s1, of sampleDate]
  have "Execute ?env ?d1 =
      Inl (Error (ErrorNew ''no virtual machine matches the filters''))"
    by simp
  moreover from C1_Execute_cardinality [OF drv f2 s2, of sampleDate]
  have "Execute ?env ?d2 = Inr \<lparr>VmName = ''web-1''\<rparr>"
    by (simp add: web1_def)
  moreover from C1_Execute_cardinality [OF drv f3 s3, of sampleDate]
  have "Execute ?env ?d3 =
      Inl (Error (ErrorNew ''more than one virtual machine matched the filters''))"
    by (simp add: sampleConfig_def)
  moreover from C1_Execute_cardinality [OF drv f4 s4, of sampleDate]
  have "Execute ?env ?d4 = Inr \<lparr>VmName = ''db-1''\<rparr>"
    by (simp add: sample_defs)
  ultimately show ?thesis by blast
qed

subsection \<open>C2: the tag filter keeps the machines that have every required tag\<close>

text \<open>
  Claim C2: the tag filter keeps a machine if and only if every required pair of name
  and category is matched by an attached tag of that name whose category identifier
  resolves to that category name; the first required tag that does not match ends the
  evaluation for the machine, which is left out; a machine is kept only when the count
  of matched required tags is the number of required tags.

  In the theorem: whenever the filter returns a list, it is the list of the machines that
  have all the tags, in the order of the input; it does return that list when the
  lookups of attached tags and of their categories succeed; when the scan for a required
  tag finds no match, the count stops there, whatever the remaining required tags are;
  and a single machine is kept exactly when its count is the number of required tags.
\<close>

theorem C2_filterByTags_all_required:
  "(filterByTags driver vmTags vmList = Inr out \<longrightarrow>
      out = filter (hasAllTags driver vmTags) vmList)
   \<and> ((\<forall>vm \<in> set vmList. \<exists>realTagsList.
          GetAttachedTags driver (vm_Reference vm) = Inr realTagsList \<and>
          (\<forall>realTag \<in> set realTagsList. \<exists>category.
              GetCategory driver (at_CategoryID realTag) = Inr category)) \<longrightarrow>
        filterByTags driver vmTags vmList = Inr (filter (hasAllTags driver vmTags) vmList))
   \<and> (filterByTags_scan driver configTag realTags = Inr False \<longrightarrow>
        filterByTags_count driver realTags n (configTag # remaining) = Inr n)
   \<and> (GetAttachedTags driver (vm_Reference vm) = Inr attached \<and>
        filterByTags driver vmTags [vm] = Inr kept \<longrightarrow>
        (kept = [vm]) = (filterByTags_count driver attached 0 vmTags = Inr (length vmTags)))"
proof -
  have returned: "filterByTags driver vmTags vmList = Inr out \<longrightarrow>
      out = filter (hasAllTags driver vmTags) vmList"
    by (auto dest: tags_result)
  have total: "(\<forall>vm \<in> set vmList. \<exists>realTagsList.
          GetAttachedTags driver (vm_Reference vm) = Inr realTagsList \<and>
          (\<forall>realTag \<in> set realTagsList. \<exists>category.
              GetCategory driver (at_CategoryID realTag) = Inr category)) \<longrightarrow>
      filterByTags driver vmTags vmList = Inr (filter (hasAllTags driver vmTags) vmList)"
  proof
    assume "\<forall>vm \<in> set vmList. \<exists>realTagsList.
          GetAttachedTags driver (vm_Reference vm) = Inr realTagsList \<and>
          (\<forall>realTag \<in> set realTagsList. \<exists>category.
              GetCategory driver (at_CategoryID realTag) = Inr category)"
    from tags_loop_total [OF this, of vmTags "[]"] obtain out
      where out: "filterByTags driver vmTags vmList = Inr out"
      by (auto simp: filterByTags_def)
    with tags_result [OF out] show
      "filterByTags driver vmTags vmList = Inr (filter (hasAllTags driver vmTags) vmList)"
      by simp
  qed
  have fail_fast: "filterByTags_scan driver configTag realTags = Inr False \<longrightarrow>
      filterByTags_count driver realTags n (configTag # remaining) = Inr n"
    by simp
  have counted: "GetAttachedTags driver (vm_Reference vm) = Inr attached \<and>
      filterByTags driver vmTags [vm] = Inr kept \<longrightarrow>
      (kept = [vm]) = (filterByTags_count driver attached 0 vmTags = Inr (length vmTags))"
    by (auto simp: filterByTags_def split: sum.splits if_splits)
  from returned total fail_fast counted show ?thesis by blast
qed

text \<open>
  Scenario B of the specification: of the three machines, only \<open>web-2\<close> bears both
  \<open>ops\<close> of \<open>team\<close> and \<open>prod\<close> of \<open>tier\<close>. On \<open>db-1\<close>, which has no tag, the count
  stops at the first required tag.
\<close>

theorem C2_filterByTags_all_required_witness:
  "filterByTags sampleDriver [teamOps, tierProd] [web1, web2, db1] = Inr [web2]
   \<and> filter (hasAllTags sampleDriver [teamOps, tierProd]) [web1, web2, db1] = [web2]
   \<and> filterByTags_scan sampleDriver teamOps [] = Inr False
   \<and> filterByTags_count sampleDriver [] 0 [teamOps, tierProd] = Inr 0
   \<and> filterByTags sampleDriver [teamOps, tierProd] [web1] = Inr []
   \<and> filterByTags_count sampleDriver [opsTag] 0 [teamOps, tierProd] \<noteq> Inr 2"
proof -
  have lookups: "\<forall>vm \<in> set [web1, web2, db1]. \<exists>realTagsList.
          GetAttachedTags sampleDriver (vm_Reference vm) = Inr realTagsList \<and>
          (\<forall>realTag \<in> set realTagsList. \<exists>category.
              GetCategory sampleDriver (at_CategoryID realTag) = Inr category)"
    by (simp add: sample_defs)
  have scan: "filterByTags_scan sampleDriver teamOps [] = Inr False"
    by simp
  have tags1: "GetAttachedTags sampleDriver (vm_Reference web1) = Inr [opsTag]"
    by (simp add: sample_defs)
  have one: "filterByTags sampleDriver [teamOps, tierProd] [web1] = Inr []"
    by (simp add: filterByTags_def sample_defs)
  have kept: "filter (hasAllTags sampleDriver [teamOps, tierProd]) [web1, web2, db1] = [web2]"
    by (simp add: hasAllTags_def tagAttached_def sample_defs)
  note C2 = C2_filterByTags_all_required
    [where driver = sampleDriver and vmTags = "[teamOps, tierProd]"
       and vmList = "[web1, web2, db1]" and out = "[web2]" and configTag = teamOps
       and realTags = "[]" and n = 0 and remaining = "[tierProd]"
       and vm = web1 and attached = "[opsTag]" and kept = "[]"]
  from C2 lookups have "filterByTags sampleDriver [teamOps, tierProd] [web1, web2, db1] =
      Inr (filter (hasAllTags sampleDriver [teamOps, tierProd]) [web1, web2, db1])"
    by blast
  then have all: "filterByTags sampleDriver [teamOps, tierProd] [web1, web2, db1] = Inr [web2]"
    by (simp only: kept)
  from C2 scan have stop: "filterByTags_count sampleDriver [] 0 [teamOps, tierProd] = Inr 0"
    by blast
  from C2 tags1 one have "([] = [web1]) =
      (filterByTags_count sampleDriver [opsTag] 0 [teamOps, tierProd] =
        Inr (length [teamOps, tierProd]))"
    by blast
  then have count: "filterByTags_count sampleDriver [opsTag] 0 [teamOps, tierProd] \<noteq> Inr 2"
    by (simp del: filterByTags_count.simps add: numeral_2_eq_2)
  from all kept scan stop one count show ?thesis by blast
qed

subsection \<open>C3: the latest machine\<close>

text \<open>
  Claim C3: for every list that is not empty and in which at least one machine has a
  creation date other than zero, the latest-selection filter returns the one-element
  list of the machine with the latest creation date, the first of them in the order of
  the list when several share that date.

  The claim holds when every machine of the list has a creation date (lemmas
  \<open>latest_dates\<close> and \<open>find_max_first\<close>). It fails on the code when a machine of the
  list has none: with \<open>web-1\<close> created at 100 and \<open>web-2\<close> without a creation date,
  \<open>vmConfig.Config.CreateDate.After\<close> dereferences the nil pointer of \<open>web-2\<close>, and
  so does \<open>Execute\<close> with \<open>Latest\<close> on the two machines.
\<close>

theorem C3_filterByLatest_missing_date:
  "filterByLatest oneDateDriver [web1, web2] = Inl NilPointerDereference
   \<and> Execute (sampleCollaborators oneDateDriver)
        \<lparr>config = sampleConfig\<lparr>Name := ''web-*'', Latest := True\<rparr>\<rparr> =
      Inl NilPointerDereference"
  by (simp add: run_defs sample_defs)

subsection \<open>C4: a name pattern that does not compile\<close>

text \<open>
  Claim C4: when the pattern of \<open>NameRegex\<close> does not compile, the name filter matches
  nothing and returns the empty list, without an error.

  On the code the filter returns the empty list only for the empty list (lemma
  \<open>regex_not_compiled\<close>). On a list that is not empty, the nil \<open>re\<close> that the dropped
  error leaves is dereferenced by \<open>re.MatchString\<close> at the first machine; and the list
  that \<open>Execute\<close> hands to the filter is the list of the finder.
\<close>

theorem C4_filterByNameRegex_invalid_pattern:
  "sampleCompile ''('' = Inl (ErrorNew ''error parsing regexp'')
   \<and> filterByNameRegex sampleCompile [web1, web2, db1] ''('' = Inl NilPointerDereference
   \<and> Execute (sampleCollaborators sampleDriver) \<lparr>config = sampleConfig\<lparr>NameRegex := ''(''\<rparr>\<rparr> =
      Inl NilPointerDereference"
  by (simp add: run_defs sample_defs)

subsection \<open>C5: no filter lengthens the list\<close>

text \<open>
  Claim C5: for each of the five filters and every list, the list returned is at most as
  long as the list given.

  Two filters break it. The latest-selection filter returns a list of one handle for the
  empty list (\<open>Execute\<close> calls it on lists of two machines or more only). The host filter
  appends a machine once for every machine of the host that bears its name: when the
  host runs two machines named \<open>web-1\<close>, the list of the one machine \<open>web-1\<close> becomes a
  list of two.
\<close>

theorem C5_narrowing_counterexample:
  "filterByLatest sampleDriver [] = Inr [None]
   \<and> \<not> length [None :: VirtualMachine option] \<le> length ([] :: VirtualMachine list)
   \<and> filterByHost twinsDriver (sampleConfig\<lparr>Host := ''esx-1''\<rparr>) [web1] = Inr [web1, web1]
   \<and> \<not> length [web1, web1] \<le> length [web1]"
  by (simp add: filterByLatest_def filterByHost_def sample_defs)

text \<open>
  Claim C5, amended: the list returned is at most as long as the list given for the
  name, template and tag filters on every list, for the latest-selection filter on every
  list that is not empty, and for the host filter when the machines of the host bear
  pairwise different names.
\<close>

theorem C5_filters_narrow:
  "(filterByNameRegex compile vmList nameRegex = Inr named \<longrightarrow> length named \<le> length vmList)
   \<and> (filterByTemplate driver vmList = Inr templates \<longrightarrow> length templates \<le> length vmList)
   \<and> (filterByTags driver vmTags vmList = Inr tagged \<longrightarrow> length tagged \<le> length vmList)
   \<and> (vmList \<noteq> [] \<and> filterByLatest driver vmList = Inr latest \<longrightarrow>
        length latest \<le> length vmList)
   \<and> (filterByHost driver c vmList = Inr hosted \<and>
        (\<forall>obj refs hostVms. Finder_HostSystem driver (Host c) = Inr obj \<and>
            RetrieveOne_vm driver obj = Inr refs \<and> Retrieve_name driver refs = Inr hostVms \<longrightarrow>
            distinct (map mo_Name hostVms)) \<longrightarrow>
        length hosted \<le> length vmList)"
proof -
  have "filterByHost driver c vmList = Inr hosted \<and>
        (\<forall>obj refs hostVms. Finder_HostSystem driver (Host c) = Inr obj \<and>
            RetrieveOne_vm driver obj = Inr refs \<and> Retrieve_name driver refs = Inr hostVms \<longrightarrow>
            distinct (map mo_Name hostVms)) \<longrightarrow>
        length hosted \<le> length vmList"
  proof (intro impI, elim conjE)
    assume out: "filterByHost driver c vmList = Inr hosted"
      and names: "\<forall>obj refs hostVms. Finder_HostSystem driver (Host c) = Inr obj \<and>
            RetrieveOne_vm driver obj = Inr refs \<and> Retrieve_name driver refs = Inr hostVms \<longrightarrow>
            distinct (map mo_Name hostVms)"
    show "length hosted \<le> length vmList"
    proof (rule host_length [OF out])
      fix obj refs hostVms
      assume "Finder_HostSystem driver (Host c) = Inr obj" "RetrieveOne_vm driver obj = Inr refs"
        "Retrieve_name driver refs = Inr hostVms"
      with names show "distinct (map mo_Name hostVms)" by blast
    qed
  qed
  then show ?thesis
    using regex_length [of compile vmList nameRegex named] template_length [of driver vmList templates]
      tags_length [of driver vmTags vmList tagged] latest_length [of vmList driver latest]
    by blast
qed

theorem C5_filters_narrow_witness:
  "filterByNameRegex sampleCompile [web1, web2, db1] ''^web-'' = Inr [web1, web2]
   \<and> filterByTemplate sampleDriver [web1, web2, db1] = Inr [web1, web2]
   \<and> filterByTags sampleDriver [teamOps] [web1, web2, db1] = Inr [web1, web2]
   \<and> filterByLatest sampleDriver [web1, web2, db1] = Inr [Some db1]
   \<and> filterByHost sampleDriver (sampleConfig\<lparr>Host := ''esx-1''\<rparr>) [web1, web2, db1] =
       Inr [web1, db1]
   \<and> length [web1, web2] \<le> length [web1, web2, db1]
   \<and> length [Some db1] \<le> length [web1, web2, db1]
   \<and> length [web1, db1] \<le> length [web1, web2, db1]"
proof -
  have r1: "filterByNameRegex sampleCompile [web1, web2, db1] ''^web-'' = Inr [web1, web2]"
    by (simp add: filterByNameRegex_def sample_defs)
  have r2: "filterByTemplate sampleDriver [web1, web2, db1] = Inr [web1, web2]"
    by (simp add: filterByTemplate_def sample_defs)
  have r3: "filterByTags sampleDriver [teamOps] [web1, web2, db1] = Inr [web1, web2]"
    by (simp add: filterByTags_def sample_defs)
  have r4: "filterByLatest sampleDriver [web1, web2, db1] = Inr [Some db1]"
    by (simp add: filterByLatest_def After_def sample_defs)
  have r5: "filterByHost sampleDriver (sampleConfig\<lparr>Host := ''esx-1''\<rparr>) [web1, web2, db1] =
      Inr [web1, db1]"
    by (simp add: filterByHost_def sample_defs)
  have names: "\<forall>obj refs hostVms.
      Finder_HostSystem sampleDriver (Host (sampleConfig\<lparr>Host := ''esx-1''\<rparr>)) = Inr obj \<and>
      RetrieveOne_vm sampleDriver obj = Inr refs \<and>
      Retrieve_name sampleDriver refs = Inr hostVms \<longrightarrow> distinct (map mo_Name hostVms)"
    by (auto simp: sample_defs)
  have nonempty: "[web1, web2, db1] \<noteq> []" by simp
  note C5 = C5_filters_narrow
    [where compile = sampleCompile and vmList = "[web1, web2, db1]" and nameRegex = "''^web-''"
       and named = "[web1, web2]" and driver = sampleDriver and templates = "[web1, web2]"
       and vmTags = "[teamOps]" and tagged = "[web1, web2]" and latest = "[Some db1]"
       and c = "sampleConfig\<lparr>Host := ''esx-1''\<rparr>" and hosted = "[web1, db1]"]
  from C5 r1 have l1: "length [web1, web2] \<le> length [web1, web2, db1]" by blast
  from C5 r4 nonempty have l4: "length [Some db1] \<le> length [web1, web2, db1]" by blast
  from C5 r5 names have l5: "length [web1, db1] \<le> length [web1, web2, db1]" by blast
  from r1 r2 r3 r4 r5 l1 l4 l5 show ?thesis by blast
qed

subsection \<open>C6: creation dates that are all zero or missing\<close>

text \<open>
  Claim C6: for every list that is not empty and in which every creation date is zero or
  absent, the latest-selection filter still returns a one-element list whose element is
  one of the machines given.

  On the code no machine wins. When every date is the zero instant, no date is after the
  zero instant with which the loop starts, \<open>latestVM\<close> stays nil and the list returned
  holds the nil handle (lemma \<open>latest_zero_dates\<close>); \<open>Execute\<close> then dereferences it in
  \<open>filteredVms[0].Name()\<close>. When the dates are absent, the nil \<open>CreateDate\<close> of the
  first machine is dereferenced.
\<close>

theorem C6_filterByLatest_degenerate:
  "filterByLatest zeroDatesDriver [web1, web2] = Inr [None]
   \<and> Execute (sampleCollaborators zeroDatesDriver)
        \<lparr>config = sampleConfig\<lparr>Name := ''web-*'', Latest := True\<rparr>\<rparr> =
      Inl NilPointerDereference
   \<and> filterByLatest noDatesDriver [web1, web2] = Inl NilPointerDereference
   \<and> Execute (sampleCollaborators noDatesDriver)
        \<lparr>config = sampleConfig\<lparr>Name := ''web-*'', Latest := True\<rparr>\<rparr> =
      Inl NilPointerDereference"
  by (simp add: run_defs sample_defs)

subsection \<open>C7: an optional filter runs only when configured, and on a list that is not empty\<close>

text \<open>
  Claim C7: in every run of \<open>Execute\<close>, each of the optional filters (name pattern,
  template, host, tags) is skipped when its field of the configuration is unset, and
  none of them runs on a list that is already empty.

  The template, host and tag filters are guarded by \<open>len(filteredVms) > 0\<close>. The name
  filter is guarded by its field alone and is given the list of the finder, which, as
  the comment in \<open>Execute\<close> and the specification say, "never returns an empty list
  without failing": that is the hypothesis of the theorem.
\<close>

theorem C7_optional_filters_in_order:
  assumes "\<forall>dr. NewDriver env (ConnectConfig.truncate (config d)) = Inr dr \<longrightarrow>
      Finder_VirtualMachineList dr (Name (config d)) \<noteq> Inr []"
  shows "list_all (optionalCallInOrder (config d)) (fst (Execute_run env d))"
proof (cases "NewDriver env (ConnectConfig.truncate (config d))")
  case (Inl err)
  then show ?thesis by (simp add: Execute_run_def)
next
  case dr: (Inr dr)
  show ?thesis
  proof (cases "Finder_VirtualMachineList dr (Name (config d))")
    case (Inl err)
    with dr show ?thesis by (simp add: Execute_run_def)
  next
    case (Inr found)
    with assms dr have "found \<noteq> []" by auto
    then have "list_all (optionalCallInOrder (config d))
        (fst (thenRun (filterChain env dr (config d) found) (step_Select dr (config d))))"
      by (intro thenRun_calls chain_calls select_calls)
    with dr Inr show ?thesis by (simp add: Execute_run_def)
  qed
qed

text \<open>
  With the four fields set, the four filters run, each on a list that is not empty; with
  none set (and several machines found), no filter runs.
\<close>

theorem C7_optional_filters_in_order_witness:
  "list_all
     (optionalCallInOrder
        (sampleConfig\<lparr>NameRegex := ''^web-'', Template := True, Host := ''esx-1'',
           Tags := Some [teamOps]\<rparr>))
     [(NameRegexStage, [web1, web2, db1]), (TemplateStage, [web1, web2]),
      (HostStage, [web1, web2]), (TagsStage, [web1])]
   \<and> fst (Execute_run (sampleCollaborators sampleDriver)
        \<lparr>config = sampleConfig\<lparr>NameRegex := ''^web-'', Template := True, Host := ''esx-1'',
           Tags := Some [teamOps]\<rparr>\<rparr>) =
      [(NameRegexStage, [web1, web2, db1]), (TemplateStage, [web1, web2]),
       (HostStage, [web1, web2]), (TagsStage, [web1])]
   \<and> fst (Execute_run (sampleCollaborators sampleDriver) \<lparr>config = sampleConfig\<rparr>) = []"
proof -
  let ?d = "\<lparr>config = sampleConfig\<lparr>NameRegex := ''^web-'', Template := True,
    Host := ''esx-1'', Tags := Some [teamOps]\<rparr>\<rparr>"
  have finder: "\<forall>dr. NewDriver (sampleCollaborators sampleDriver)
        (ConnectConfig.truncate (config ?d)) = Inr dr \<longrightarrow>
      Finder_VirtualMachineList dr (Name (config ?d)) \<noteq> Inr []"
    by (auto simp: sample_defs)
  have calls: "fst (Execute_run (sampleCollaborators sampleDriver) ?d) =
      [(NameRegexStage, [web1, web2, db1]), (TemplateStage, [web1, web2]),
       (HostStage, [web1, web2]), (TagsStage, [web1])]"
    by (simp add: run_defs sample_defs)
  have none: "fst (Execute_run (sampleCollaborators sampleDriver) \<lparr>config = sampleConfig\<rparr>) = []"
    by (simp add: run_defs sample_defs)
  from C7_optional_filters_in_order [OF finder] calls none show ?thesis
    by simp
qed

subsection \<open>C8: the message when no machine is left\<close>

text \<open>
  Claim C8: when the list is empty after the filters, the selection fails with the
  message "no virtual machine matches the configured filters", word for word.

  The message of the code is another one: with a name pattern that matches no machine,
  \<open>Execute\<close> does not return the message of the claim.
\<close>

theorem C8_message_counterexample:
  "snd (filterChain (sampleCollaborators sampleDriver) sampleDriver
          (sampleConfig\<lparr>NameRegex := ''^none$''\<rparr>) [web1, web2, db1]) = Inr []
   \<and> Execute (sampleCollaborators sampleDriver)
        \<lparr>config = sampleConfig\<lparr>NameRegex := ''^none$''\<rparr>\<rparr> \<noteq>
      Inl (Error (ErrorNew ''no virtual machine matches the configured filters''))"
  by (simp add: run_defs sample_defs)

text \<open>
  Claim C8, amended: when the list is empty after the filters, \<open>Execute\<close> fails with the
  error whose message is "no virtual machine matches the filters", word for word.
\<close>

theorem C8_no_match_message:
  assumes "NewDriver env (ConnectConfig.truncate (config d)) = Inr dr"
    and "Finder_VirtualMachineList dr (Name (config d)) = Inr found"
    and "snd (filterChain env dr (config d) found) = Inr []"
  shows "Execute env d = Inl (Error (ErrorNew ''no virtual machine matches the filters''))"
  by (simp add: Execute_after_filters [OF assms] select_none)

theorem C8_no_match_message_witness:
  "Execute (sampleCollaborators sampleDriver)
     \<lparr>config = sampleConfig\<lparr>NameRegex := ''^none$''\<rparr>\<rparr> =
   Inl (Error (ErrorNew ''no virtual machine matches the filters''))"
proof -
  let ?d = "\<lparr>config = sampleConfig\<lparr>NameRegex := ''^none$''\<rparr>\<rparr>"
  have drv: "NewDriver (sampleCollaborators sampleDriver) (ConnectConfig.truncate (config ?d)) =
      Inr sampleDriver"
    by (simp add: sampleCollaborators_def)
  have found: "Finder_VirtualMachineList sampleDriver (Name (config ?d)) =
      Inr [web1, web2, db1]"
    by (simp add: sampleDriver_def sampleConfig_def)
  have left: "snd (filterChain (sampleCollaborators sampleDriver) sampleDriver (config ?d)
      [web1, web2, db1]) = Inr []"
    by (simp add: run_defs sample_defs)
  from C8_no_match_message [OF drv found left] show ?thesis .
qed

subsection \<open>C9: the validation of the configuration\<close>

text \<open>
  Claim C9: \<open>Configure\<close> returns an error if and only if the decoding fails, or
  \<open>vcenter_server\<close>, \<open>username\<close> or \<open>password\<close> is empty, or some tag block lacks its
  name or its category; the violations found in the one pass are returned together in a
  single error; and this happens before the pipeline runs.

  In the theorem: the equivalence; after a successful decoding the returned error is the
  \<open>MultiError\<close> of all the violations of the decoded configuration, and nil when there
  is none; a decoding error is returned as it is. \<open>Configure\<close> takes no driver and makes
  no call to vCenter: the pipeline is \<open>Execute\<close>.
\<close>

theorem C9_Configure_validation:
  "((snd (Configure decode raws d) \<noteq> None) =
      ((\<exists>err. decode raws = Inl err) \<or>
       (\<exists>c. decode raws = Inr c \<and>
          (VCenterServer c = [] \<or> Username c = [] \<or> Password c = [] \<or>
           (\<exists>tag \<in> set (elems (Tags c)). tag_Name tag = [] \<or> tag_Category tag = [])))))
   \<and> (\<forall>c. decode raws = Inr c \<longrightarrow>
         snd (Configure decode raws d) =
           (if violations c = [] then None else Some (MultiError (violations c))))
   \<and> (\<forall>err. decode raws = Inl err \<longrightarrow> snd (Configure decode raws d) = Some err)"
proof -
  have iff: "(snd (Configure decode raws d) \<noteq> None) =
      ((\<exists>err. decode raws = Inl err) \<or>
       (\<exists>c. decode raws = Inr c \<and>
          (VCenterServer c = [] \<or> Username c = [] \<or> Password c = [] \<or>
           (\<exists>tag \<in> set (elems (Tags c)). tag_Name tag = [] \<or> tag_Category tag = []))))"
  proof (cases "decode raws")
    case (Inl err)
    then show ?thesis by (simp add: Configure_not_decoded)
  next
    case (Inr c)
    have "(snd (Configure decode raws d) \<noteq> None) = (violations c \<noteq> [])"
      by (simp add: Configure_decoded [of decode raws c d, OF Inr])
    with Inr show ?thesis by (simp add: violations_none)
  qed
  have decoded: "\<forall>c. decode raws = Inr c \<longrightarrow>
      snd (Configure decode raws d) =
        (if violations c = [] then None else Some (MultiError (violations c)))"
    using Configure_decoded [of decode raws _ d] by blast
  have failed: "\<forall>err. decode raws = Inl err \<longrightarrow> snd (Configure decode raws d) = Some err"
    using Configure_not_decoded [of decode raws _ d] by blast
  from iff decoded failed show ?thesis by blast
qed

text \<open>
  A configuration without user name and with two incomplete tag blocks among three: the
  three violations come back in one error. The sample configuration passes.
\<close>

theorem C9_Configure_validation_witness:
  "snd (Configure Inr
         (sampleConfig\<lparr>Username := [],
            Tags := Some [\<lparr>tag_Name = ''ops'', tag_Category = []\<rparr>, teamOps,
                          \<lparr>tag_Name = [], tag_Category = ''tier''\<rparr>]\<rparr>)
         \<lparr>config = sampleConfig\<rparr>) =
     Some (MultiError
       [ErrorNew '''username' is required'',
        ErrorNew ''both name and category are required for tag'',
        ErrorNew ''both name and category are required for tag''])
   \<and> snd (Configure Inr sampleConfig \<lparr>config = sampleConfig\<rparr>) = None"
proof -
  let ?bad = "sampleConfig\<lparr>Username := [],
            Tags := Some [\<lparr>tag_Name = ''ops'', tag_Category = []\<rparr>, teamOps,
                          \<lparr>tag_Name = [], tag_Category = ''tier''\<rparr>]\<rparr>"
  have v1: "violations ?bad =
      [ErrorNew '''username' is required'',
       ErrorNew ''both name and category are required for tag'',
       ErrorNew ''both name and category are required for tag'']"
    by (simp add: violations_def incompleteTag_def elems_def sample_defs)
  have v2: "violations sampleConfig = []"
    by (simp add: violations_def incompleteTag_def elems_def sample_defs)
  from C9_Configure_validation [of Inr ?bad "\<lparr>config = sampleConfig\<rparr>"]
  have "snd (Configure Inr ?bad \<lparr>config = sampleConfig\<rparr>) =
      (if violations ?bad = [] then None else Some (MultiError (violations ?bad)))"
    by blast
  then have bad: "snd (Configure Inr ?bad \<lparr>config = sampleConfig\<rparr>) =
      Some (MultiError
       [ErrorNew '''username' is required'',
        ErrorNew ''both name and category are required for tag'',
        ErrorNew ''both name and category are required for tag''])"
    by (simp only: v1) simp
  from C9_Configure_validation [of Inr sampleConfig "\<lparr>config = sampleConfig\<rparr>"]
  have "snd (Configure Inr sampleConfig \<lparr>config = sampleConfig\<rparr>) =
      (if violations sampleConfig = [] then None
       else Some (MultiError (violations sampleConfig)))"
    by blast
  then have good: "snd (Configure Inr sampleConfig \<lparr>config = sampleConfig\<rparr>) = None"
    by (simp only: v2) simp
  from bad good show ?thesis by blast
qed

subsection \<open>C10: the tag filter without required tags\<close>

text \<open>
  Claim C10: for every driver and every list, the tag filter with an empty list of
  required tags returns the list unchanged; and \<open>Execute\<close> runs the filter whenever the
  slice of tags is not nil, even when it is empty.

  The filter asks for the attached tags of every machine before it looks at the required
  tags: with a tag manager that fails, it returns the error. And \<open>Execute\<close> does not
  run it, with an empty slice that is not nil, when the name filter has left no machine.
\<close>

theorem C10_empty_tags_counterexample:
  "filterByTags tagsFailDriver [] [web1] =
     Inl (Error (Errorf ''failed return tags for the virtual machine''
       (ErrorNew ''permission denied'')))
   \<and> fst (Execute_run (sampleCollaborators sampleDriver)
        \<lparr>config = sampleConfig\<lparr>NameRegex := ''^none$'', Tags := Some []\<rparr>\<rparr>) =
      [(NameRegexStage, [web1, web2, db1])]"
  by (simp add: run_defs sample_defs)

text \<open>
  Claim C10, amended: for every driver and every list such that the lookup of the
  attached tags succeeds for every machine of the list, the tag filter with an empty list
  of required tags returns the list unchanged (and whenever it returns a list, it is the
  list given); \<open>Execute\<close> runs the filter, on the list that the name, template and host
  filters have left, exactly when that list is not empty and the slice of tags is not
  nil, even when the slice is empty.
\<close>

theorem C10_empty_tags_identity:
  "((\<forall>vm \<in> set vmList. \<exists>realTagsList.
        GetAttachedTags driver (vm_Reference vm) = Inr realTagsList) \<longrightarrow>
      filterByTags driver [] vmList = Inr vmList)
   \<and> (filterByTags driver [] vmList = Inr out \<longrightarrow> out = vmList)
   \<and> (NewDriver env (ConnectConfig.truncate (config d)) = Inr dr \<and>
       Finder_VirtualMachineList dr (Name (config d)) = Inr found \<and>
       snd (filtersBeforeTags env dr (config d) found) = Inr vms \<longrightarrow>
       ((TagsStage, vms) \<in> set (fst (Execute_run env d))) =
         (vms \<noteq> [] \<and> Tags (config d) \<noteq> None))"
proof -
  have identity: "(\<forall>vm \<in> set vmList. \<exists>realTagsList.
        GetAttachedTags driver (vm_Reference vm) = Inr realTagsList) \<longrightarrow>
      filterByTags driver [] vmList = Inr vmList"
    using tags_empty_loop [of vmList driver "[]"] by (simp add: filterByTags_def)
  have returned: "filterByTags driver [] vmList = Inr out \<longrightarrow> out = vmList"
    using tags_empty_returned [of driver "[]" vmList out] by (simp add: filterByTags_def)
  have runs: "NewDriver env (ConnectConfig.truncate (config d)) = Inr dr \<and>
       Finder_VirtualMachineList dr (Name (config d)) = Inr found \<and>
       snd (filtersBeforeTags env dr (config d) found) = Inr vms \<longrightarrow>
       ((TagsStage, vms) \<in> set (fst (Execute_run env d))) =
         (vms \<noteq> [] \<and> Tags (config d) \<noteq> None)"
    using Execute_run_at_tags [of env d dr found vms] by blast
  from identity returned runs show ?thesis by blast
qed

theorem C10_empty_tags_identity_witness:
  "filterByTags sampleDriver [] [web1, web2, db1] = Inr [web1, web2, db1]
   \<and> (TagsStage, [web1, web2, db1]) \<in>
       set (fst (Execute_run (sampleCollaborators sampleDriver)
         \<lparr>config = sampleConfig\<lparr>Tags := Some []\<rparr>\<rparr>))"
proof -
  let ?d = "\<lparr>config = sampleConfig\<lparr>Tags := Some []\<rparr>\<rparr>"
  have lookups: "\<forall>vm \<in> set [web1, web2, db1]. \<exists>realTagsList.
      GetAttachedTags sampleDriver (vm_Reference vm) = Inr realTagsList"
    by (simp add: sample_defs)
  have drv: "NewDriver (sampleCollaborators sampleDriver) (ConnectConfig.truncate (config ?d)) =
      Inr sampleDriver"
    by (simp add: sampleCollaborators_def)
  have found: "Finder_VirtualMachineList sampleDriver (Name (config ?d)) =
      Inr [web1, web2, db1]"
    by (simp add: sampleDriver_def sampleConfig_def)
  have before: "snd (filtersBeforeTags (sampleCollaborators sampleDriver) sampleDriver
      (config ?d) [web1, web2, db1]) = Inr [web1, web2, db1]"
    by (simp add: run_defs sample_defs)
  have set: "[web1, web2, db1] \<noteq> [] \<and> Tags (config ?d) \<noteq> None"
    by simp
  note C10 = C10_empty_tags_identity
    [where vmList = "[web1, web2, db1]" and driver = sampleDriver
       and out = "[web1, web2, db1]" and env = "sampleCollaborators sampleDriver"
       and d = ?d and dr = sampleDriver and found = "[web1, web2, db1]"
       and vms = "[web1, web2, db1]"]
  from C10 lookups have "filterByTags sampleDriver [] [web1, web2, db1] = Inr [web1, web2, db1]"
    by blast
  moreover from C10 drv found before set
  have "(TagsStage, [web1, web2, db1]) \<in>
      set (fst (Execute_run (sampleCollaborators sampleDriver) ?d))"
    by blast
  ultimately show ?thesis by blast
qed

end
